theory Spec2Isabelle
  imports Main "HOL-Library.Char_ord" "HOL-Library.List_Lexorder"
begin

section \<open>Python values that reach the handlers\<close>

text \<open>
  The Lambda event is the Python object decoded from a JSON document: \<open>None\<close>, booleans,
  integers, strings, lists and dictionaries with string keys (floating-point numbers are
  left out: an API Gateway event carries none, and their text form is outside this model).
  A dictionary is an association list in insertion order; a lookup takes the first entry
  of a key. A string is a list of code points below 256.
\<close>

datatype json =
    JNull
  | JBool bool
  | JInt int
  | JStr string
  | JList "json list"
  | JDict "(string \<times> json) list"

type_synonym dict = "(string \<times> json) list"

text \<open>A raised exception: its class and the text \<open>str(e)\<close>.\<close>

datatype exn_class = KeyError | IndexError | ValueError | AttributeError | TypeError | LibraryError

datatype exn = Exn exn_class string

fun exn_str :: "exn \<Rightarrow> string" where
  "exn_str (Exn c msg) = msg"

subsection \<open>Decimal and hexadecimal text\<close>

definition digit_char :: "nat \<Rightarrow> char" where
  "digit_char n = ''0123456789abcdef'' ! (n mod 16)"

fun show_nat :: "nat \<Rightarrow> string" where
  "show_nat n = (if n < 10 then [digit_char n] else show_nat (n div 10) @ [digit_char (n mod 10)])"

declare show_nat.simps [simp del]

definition show_int :: "int \<Rightarrow> string" where
  "show_int i = (if i < 0 then CHR ''-'' # show_nat (nat (- i)) else show_nat (nat i))"

definition hex2 :: "nat \<Rightarrow> string" where
  "hex2 n = [digit_char ((n div 16) mod 16), digit_char (n mod 16)]"

subsection \<open>\<open>repr\<close> and \<open>str\<close>\<close>

text \<open>
  \<open>repr\<close> of a \<open>str\<close>: single quotes, unless the text holds a single quote and no double
  quote; the quote and the backslash are escaped, tab, newline and carriage return are
  written \<open>\t\<close>, \<open>\n\<close>, \<open>\r\<close>, and every other code point that is not printable is written
  \<open>\xhh\<close>.
\<close>

definition py_printable :: "char \<Rightarrow> bool" where
  "py_printable c = (let n = (of_char c :: nat) in (32 \<le> n \<and> n < 127) \<or> (161 \<le> n \<and> n \<noteq> 173))"

definition repr_char :: "char \<Rightarrow> char \<Rightarrow> string" where
  "repr_char q c =
     (if c = q \<or> c = CHR 0x5C then [CHR 0x5C, c]
      else if c = CHR 0x09 then [CHR 0x5C, CHR ''t'']
      else if c = CHR 0x0A then [CHR 0x5C, CHR ''n'']
      else if c = CHR 0x0D then [CHR 0x5C, CHR ''r'']
      else if py_printable c then [c]
      else [CHR 0x5C, CHR ''x''] @ hex2 (of_char c))"

definition py_repr_str :: "string \<Rightarrow> string" where
  "py_repr_str s =
     (let q = (if CHR 0x27 \<in> set s \<and> CHR 0x22 \<notin> set s then CHR 0x22 else CHR 0x27)
      in [q] @ concat (map (repr_char q) s) @ [q])"

fun join :: "string \<Rightarrow> string list \<Rightarrow> string" where
  "join sep [] = []"
| "join sep [x] = x"
| "join sep (x # y # ys) = x @ sep @ join sep (y # ys)"

text \<open>\<open>str\<close> of a list of strings, as an f-string renders \<open>{path}\<close>.\<close>

definition py_str_list :: "string list \<Rightarrow> string" where
  "py_str_list xs = ''['' @ join '', '' (map py_repr_str xs) @ '']''"

subsection \<open>\<open>json.dumps\<close>\<close>

text \<open>
  \<open>json.dumps\<close> with its defaults (\<open>ensure_ascii=True\<close>, separators \<open>', '\<close> and \<open>': '\<close>):
  inside a string the double quote and the backslash are escaped, the control characters
  that have a short form use it, and every other code point outside \<open>' '..'~'\<close> is
  written \<open>\u00hh\<close>.
\<close>

definition json_escape_char :: "char \<Rightarrow> string" where
  "json_escape_char c =
     (if c = CHR 0x22 then [CHR 0x5C, CHR 0x22]
      else if c = CHR 0x5C then [CHR 0x5C, CHR 0x5C]
      else if c = CHR 0x0A then [CHR 0x5C, CHR ''n'']
      else if c = CHR 0x0D then [CHR 0x5C, CHR ''r'']
      else if c = CHR 0x09 then [CHR 0x5C, CHR ''t'']
      else if c = CHR 0x08 then [CHR 0x5C, CHR ''b'']
      else if c = CHR 0x0C then [CHR 0x5C, CHR ''f'']
      else if 32 \<le> (of_char c :: nat) \<and> (of_char c :: nat) < 127 then [c]
      else [CHR 0x5C, CHR ''u'', CHR ''0'', CHR ''0''] @ hex2 (of_char c))"

definition json_dumps_str :: "string \<Rightarrow> string" where
  "json_dumps_str s = [CHR 0x22] @ concat (map json_escape_char s) @ [CHR 0x22]"

primrec json_dumps :: "json \<Rightarrow> string" where
  "json_dumps JNull = ''null''"
| "json_dumps (JBool b) = (if b then ''true'' else ''false'')"
| "json_dumps (JInt i) = show_int i"
| "json_dumps (JStr s) = json_dumps_str s"
| "json_dumps (JList xs) = ''['' @ join '', '' (map json_dumps xs) @ '']''"
| "json_dumps (JDict kvs) =
     ''{'' @ join '', '' (map (\<lambda>kv. json_dumps_str (fst kv) @ '': '' @ snd kv)
                            (map (map_prod id json_dumps) kvs)) @ ''}''"

subsection \<open>Truthiness, \<open>dict.get\<close>, subscription, \<open>str.split\<close>\<close>

fun truthy :: "json \<Rightarrow> bool" where
  "truthy JNull = False"
| "truthy (JBool b) = b"
| "truthy (JInt i) = (i \<noteq> 0)"
| "truthy (JStr s) = (s \<noteq> [])"
| "truthy (JList xs) = (xs \<noteq> [])"
| "truthy (JDict kvs) = (kvs \<noteq> [])"

fun type_name :: "json \<Rightarrow> string" where
  "type_name JNull = ''NoneType''"
| "type_name (JBool b) = ''bool''"
| "type_name (JInt i) = ''int''"
| "type_name (JStr s) = ''str''"
| "type_name (JList xs) = ''list''"
| "type_name (JDict kvs) = ''dict''"

text \<open>\<open>d.get(k, False)\<close> on a dictionary.\<close>

definition dict_get :: "dict \<Rightarrow> string \<Rightarrow> json" where
  "dict_get d k = (case map_of d k of Some v \<Rightarrow> v | None \<Rightarrow> JBool False)"

text \<open>\<open>d[k]\<close> on a dictionary: \<open>KeyError\<close>, whose text is the \<open>repr\<close> of the key.\<close>

definition dict_item :: "dict \<Rightarrow> string \<Rightarrow> exn + json" where
  "dict_item d k = (case map_of d k of Some v \<Rightarrow> Inr v | None \<Rightarrow> Inl (Exn KeyError (py_repr_str k)))"

text \<open>\<open>x.get(k, False)\<close> on any value: only a dictionary has the method.\<close>

fun py_get :: "json \<Rightarrow> string \<Rightarrow> exn + json" where
  "py_get (JDict d) k = Inr (dict_get d k)"
| "py_get v k = Inl (Exn AttributeError
     ([CHR 0x27] @ type_name v @ [CHR 0x27] @ '' object has no attribute '' @ py_repr_str ''get''))"

text \<open>
  \<open>x[k]\<close> with a string key on any value. Only a dictionary accepts it; the text of the
  \<open>TypeError\<close> of the other types differs between Python versions and is left empty (the
  one place that can raise it discards the exception).
\<close>

fun py_getitem :: "json \<Rightarrow> string \<Rightarrow> exn + json" where
  "py_getitem (JDict d) k = dict_item d k"
| "py_getitem v k = Inl (Exn TypeError [])"

fun split_on :: "char \<Rightarrow> string \<Rightarrow> string list" where
  "split_on c [] = [[]]"
| "split_on c (x # xs) =
     (if x = c then [] # split_on c xs
      else (case split_on c xs of [] \<Rightarrow> [[x]] | w # ws \<Rightarrow> (x # w) # ws))"

text \<open>\<open>x.split('/')\<close>: only a \<open>str\<close> has the method.\<close>

fun py_split :: "json \<Rightarrow> exn + string list" where
  "py_split (JStr s) = Inr (split_on CHR ''/'' s)"
| "py_split v = Inl (Exn AttributeError
     ([CHR 0x27] @ type_name v @ [CHR 0x27] @ '' object has no attribute '' @ py_repr_str ''split''))"


text \<open>Sequencing of calls that may raise: the first exception ends the computation.\<close>

fun bindE :: "exn + 'a \<Rightarrow> ('a \<Rightarrow> exn + 'b) \<Rightarrow> exn + 'b" where
  "bindE (Inl e) f = Inl e"
| "bindE (Inr x) f = f x"

section \<open>Timestamps and the calendar\<close>

text \<open>
  A pandas timestamp is a count of nanoseconds since 1970-01-01T00:00; timestamps compare
  as these integers. \<open>strftime\<close> reads month and day in the proleptic Gregorian calendar.
  The day number is shifted to an era of 400 years (146097 days) that starts on 1 March;
  inside the era the first three centuries have 36524 days, a cycle of four years has
  1461 days and its first three years have 365. \<open>day_of_year\<close> counts from 1 March, so
  that 29 February is the last day (365) of a long year.
\<close>

type_synonym timestamp = int

definition ns_per_day :: int where
  "ns_per_day = 86400000000000"

definition day_of_era :: "timestamp \<Rightarrow> int" where
  "day_of_era t = (t div ns_per_day + 719468) mod 146097"

definition day_of_year :: "timestamp \<Rightarrow> nat" where
  "day_of_year t =
     (let doe = day_of_era t;
          doc = doe - 36524 * min (doe div 36524) 3;
          d4 = doc mod 1461
      in nat (d4 - 365 * min (d4 div 365) 3))"

definition month_index :: "nat \<Rightarrow> nat" where
  "month_index doy = (5 * doy + 2) div 153"

definition month_of :: "nat \<Rightarrow> nat" where
  "month_of doy = (let mp = month_index doy in if mp < 10 then mp + 3 else mp - 9)"

definition day_of :: "nat \<Rightarrow> nat" where
  "day_of doy = doy - (153 * month_index doy + 2) div 5 + 1"

definition pad2 :: "nat \<Rightarrow> string" where
  "pad2 n = (if n < 10 then CHR ''0'' # show_nat n else show_nat n)"

text \<open>\<open>strftime('%m%d')\<close> and \<open>strftime('%m')\<close> of a timestamp.\<close>

definition strftime_md :: "timestamp \<Rightarrow> string" where
  "strftime_md t = pad2 (month_of (day_of_year t)) @ pad2 (day_of (day_of_year t))"

definition strftime_m :: "timestamp \<Rightarrow> string" where
  "strftime_m t = pad2 (month_of (day_of_year t))"

text \<open>
  What \<open>pd.to_datetime\<close> returns: \<open>NaT\<close>, which compares false with all; a timestamp
  without time zone; or a timestamp with a time zone (as for a text that ends in \<open>Z\<close>
  or in an offset), which cannot be compared with the index of the tables: that index
  has no time zone.
\<close>

datatype stamp = NaT | At timestamp | AtTz timestamp

section \<open>Tables\<close>

text \<open>
  A table has column labels and rows; a row has its index label and one cell per
  column. The tables of \<open>_retrospective\<close> are indexed by time and their column labels
  are reach ids; the grouped tables are indexed by the group key.
\<close>

record ('i, 'v) frame =
  columns :: "int list"
  rows :: "('i \<times> 'v list) list"

text \<open>
  The libraries and the remote stores are parameters of the model:
  \<^item> \<open>py_int\<close>: \<open>int(s)\<close> on a string, \<open>None\<close> for a \<open>ValueError\<close>;
  \<^item> \<open>open_retrospective\<close>: \<open>xr.open_zarr(...).sel(rivid=reach_id)\<close> on the retrospective
    store, up to \<open>set_index('time')\<close>: rows of time and \<open>Qout\<close>; it raises for a reach
    that is not there and for a store that cannot be read;
  \<^item> \<open>open_returnperiods\<close>: the same for the return-period store, up to \<open>to_dataframe()\<close>;
  \<^item> \<open>to_datetime\<close>: \<open>pd.to_datetime\<close>;
  \<^item> \<open>mean\<close>: the mean of the values of one group;
  \<^item> \<open>csv_value\<close>, \<open>json_value\<close>: the text of one value in a CSV cell and in JSON;
  \<^item> \<open>index_false_refused\<close>: whether this pandas refuses \<open>to_json(index=False)\<close> with
    the default orient (as older versions do) or ignores the argument;
  \<^item> \<open>rp_to_csv\<close>: \<open>df.to_csv(index=False)\<close> of a return-period table;
  \<^item> \<open>rp_to_json\<close>: \<open>df.to_json()\<close> of a return-period table.
\<close>

record ('v, 'r) env =
  py_int :: "string \<Rightarrow> int option"
  open_retrospective :: "int \<Rightarrow> exn + (timestamp \<times> 'v) list"
  open_returnperiods :: "int \<Rightarrow> exn + 'r"
  to_datetime :: "json \<Rightarrow> exn + stamp"
  mean :: "'v list \<Rightarrow> 'v"
  csv_value :: "'v \<Rightarrow> string"
  json_value :: "'v \<Rightarrow> string"
  index_false_refused :: bool
  rp_to_csv :: "'r \<Rightarrow> string"
  rp_to_json :: "'r \<Rightarrow> string"

text \<open>
  \<open>.pivot(columns='rivid', values='Qout')\<close> on the rows of one reach: the index of the
  result holds each time once, in order, and there is one column for each \<open>rivid\<close>
  that occurs, so one column labelled by the reach id, or none when there is no row.
  A time that occurs twice cannot be reshaped.
\<close>

definition pivot :: "int \<Rightarrow> (timestamp \<times> 'v) list \<Rightarrow> exn + (timestamp, 'v) frame" where
  "pivot reach_id series =
     (if \<not> distinct (map fst series)
      then Inl (Exn ValueError ''Index contains duplicate entries, cannot reshape'')
      else Inr \<lparr>columns = (if series = [] then [] else [reach_id]),
                rows = map (\<lambda>r. (fst r, [snd r])) (sort_key fst series)\<rparr>)"

text \<open>
  \<open>df.to_csv(index=False)\<close>: a header line with the column labels, then one line per row
  with its cells; the index is not written. Lines end with a newline.
\<close>

definition to_csv :: "('v \<Rightarrow> string) \<Rightarrow> ('i, 'v) frame \<Rightarrow> string" where
  "to_csv cell df =
     concat (map (\<lambda>l. l @ [CHR 0x0A])
               (join '','' (map show_int (columns df))
                  # map (\<lambda>r. join '','' (map cell (snd r))) (rows df)))"

text \<open>
  \<open>df.to_json()\<close> with the default orient \<open>columns\<close>: an object with one member per
  column, whose value is an object with one member per row, named by the index label.
  A time is written in milliseconds since 1970.
\<close>

definition json_columns :: "('i \<Rightarrow> string) \<Rightarrow> ('v \<Rightarrow> string) \<Rightarrow> ('i, 'v) frame \<Rightarrow> string" where
  "json_columns key val df =
     ''{'' @ join '',''
        (map (\<lambda>j. json_dumps_str (show_int (columns df ! j)) @ '':{'' @
                   join '','' (map (\<lambda>r. json_dumps_str (key (fst r)) @ '':'' @ val (snd r ! j)) (rows df))
                   @ ''}'')
             [0..<length (columns df)])
     @ ''}''"

definition epoch_ms :: "timestamp \<Rightarrow> string" where
  "epoch_ms t = show_int (t div 1000000)"

text \<open>
  \<open>df.to_json(index=False)\<close>, where \<open>text\<close> is \<open>df.to_json()\<close>. The handlers do not give an
  orient, and \<open>index=False\<close> goes with the orients \<open>split\<close> and \<open>table\<close> only: the call
  is refused with a \<open>ValueError\<close>, or the argument has no effect and the index is
  written.
\<close>

definition to_json_noindex :: "bool \<Rightarrow> string \<Rightarrow> exn + string" where
  "to_json_noindex refused text =
     (if refused
      then Inl (Exn ValueError ([CHR 0x27] @ ''index=False'' @ [CHR 0x27] @ '' is only valid when ''
                  @ [CHR 0x27] @ ''orient'' @ [CHR 0x27] @ '' is '' @ [CHR 0x27] @ ''split'' @ [CHR 0x27]
                  @ '' or '' @ [CHR 0x27] @ ''table'' @ [CHR 0x27]))
      else Inr text)"

text \<open>
  \<open>df[df.index <= d]\<close> and \<open>df[df.index >= d]\<close>. The comparison with a timestamp that has
  a time zone raises.
\<close>

definition keep_until :: "stamp \<Rightarrow> (timestamp, 'v) frame \<Rightarrow> exn + (timestamp, 'v) frame" where
  "keep_until d df =
     (case d of
        NaT \<Rightarrow> Inr (df\<lparr>rows := []\<rparr>)
      | At u \<Rightarrow> Inr (df\<lparr>rows := filter (\<lambda>r. fst r \<le> u) (rows df)\<rparr>)
      | AtTz u \<Rightarrow> Inl (Exn TypeError ''Cannot compare tz-naive and tz-aware datetime-like objects''))"

definition keep_from :: "stamp \<Rightarrow> (timestamp, 'v) frame \<Rightarrow> exn + (timestamp, 'v) frame" where
  "keep_from d df =
     (case d of
        NaT \<Rightarrow> Inr (df\<lparr>rows := []\<rparr>)
      | At l \<Rightarrow> Inr (df\<lparr>rows := filter (\<lambda>r. l \<le> fst r) (rows df)\<rparr>)
      | AtTz l \<Rightarrow> Inl (Exn TypeError ''Cannot compare tz-naive and tz-aware datetime-like objects''))"

text \<open>
  \<open>df.groupby(key(df.index)).mean()\<close>: one row per distinct key, in the order of the
  keys, with, for each column, the mean of the cells of the rows that have the key.
\<close>

definition groupby_mean ::
  "('v list \<Rightarrow> 'v) \<Rightarrow> (timestamp \<Rightarrow> string) \<Rightarrow> (timestamp, 'v) frame \<Rightarrow> (string, 'v) frame" where
  "groupby_mean avg key df =
     \<lparr>columns = columns df,
      rows = map (\<lambda>k. (k, map (\<lambda>j. avg (map (\<lambda>r. snd r ! j)
                                          (filter (\<lambda>r. key (fst r) = k) (rows df))))
                              [0..<length (columns df)]))
                 (sort (remdups (map (\<lambda>r. key (fst r)) (rows df))))\<rparr>"


section \<open>The handlers\<close>

text \<open>The three dictionaries a handler returns. The error ones carry the key \<open>statesCode\<close>.\<close>

definition error_response :: "int \<Rightarrow> string \<Rightarrow> json" where
  "error_response code msg = JDict [(''statesCode'', JInt code), (''body'', JStr msg)]"

definition no_reach_id :: json where
  "no_reach_id = error_response 422 ''Bad request: No reachID specified''"

definition bad_reach_id :: "string \<Rightarrow> json" where
  "bad_reach_id seg = error_response 400 (''Bad request: couldn't make '' @ seg @ '' into an integer'')"

text \<open>\<open>{'statusCode': 200, 'body': json.dumps(output)}\<close>.\<close>

definition ok_response :: "string \<Rightarrow> json" where
  "ok_response output = JDict [(''statusCode'', JInt 200), (''body'', JStr (json_dumps (JStr output)))]"

subsection \<open>\<open>_retrospective\<close>\<close>

text \<open>
  One of the two date filters of \<open>_retrospective\<close>: \<open>if params.get(k, False)\<close>, then the
  table is cut at \<open>pd.to_datetime(params[k])\<close>.
\<close>

definition date_filter ::
  "('v, 'r) env \<Rightarrow> json \<Rightarrow> string
     \<Rightarrow> (stamp \<Rightarrow> (timestamp, 'v) frame \<Rightarrow> exn + (timestamp, 'v) frame)
     \<Rightarrow> (timestamp, 'v) frame \<Rightarrow> exn + (timestamp, 'v) frame" where
  "date_filter env params k keep df =
     bindE (py_get params k) (\<lambda>x.
       if truthy x then bindE (to_datetime env x) (\<lambda>d. keep d df) else Inr df)"

text \<open>
  \<open>_retrospective(reach_id, params)\<close>: the rows of the reach, pivoted, cut by \<open>end_date\<close>,
  then by \<open>start_date\<close>.
\<close>

definition retrospective_df ::
  "('v, 'r) env \<Rightarrow> int \<Rightarrow> json \<Rightarrow> exn + (timestamp, 'v) frame" where
  "retrospective_df env reach_id params =
     bindE (open_retrospective env reach_id) (\<lambda>series.
     bindE (pivot reach_id series) (\<lambda>df0.
     bindE (date_filter env params ''end_date'' keep_until df0) (\<lambda>df.
     date_filter env params ''start_date'' keep_from df)))"

subsection \<open>The choice of the output format\<close>

text \<open>
  The block each handler ends with: \<open>csv\<close> is \<open>df.to_csv(index=False)\<close> and \<open>js\<close> is
  \<open>df.to_json(index=False)\<close>, computed only in its branch.
\<close>

definition format_output :: "json \<Rightarrow> string \<Rightarrow> exn + string \<Rightarrow> exn + string" where
  "format_output params csv js =
     bindE (py_get params ''format'') (\<lambda>f.
       if truthy f then
         (if f = JStr ''csv'' then Inr csv
          else if f = JStr ''json'' then js
          else Inl (Exn ValueError []))
       else Inr csv)"

text \<open>\<open>params = {}\<close>, replaced by the query parameters when they are truthy.\<close>

definition params_or_empty :: "json \<Rightarrow> json" where
  "params_or_empty q = (if truthy q then q else JDict [])"

subsection \<open>\<open>retrospective\<close>\<close>

definition retrospective :: "('v, 'r) env \<Rightarrow> string list \<Rightarrow> dict \<Rightarrow> exn + json" where
  "retrospective env path event =
     (if \<not> length path > 2 then Inr no_reach_id
      else
        let params = params_or_empty (dict_get event ''queryStringParameters'') in
        case py_int env (path ! 2) of
          None \<Rightarrow> Inr (bad_reach_id (path ! 2))
        | Some reach_id \<Rightarrow>
            bindE (retrospective_df env reach_id params) (\<lambda>df.
            bindE (format_output params (to_csv (csv_value env) df)
                     (to_json_noindex (index_false_refused env)
                        (json_columns epoch_ms (json_value env) df))) (\<lambda>output.
            Inr (ok_response output))))"

subsection \<open>\<open>daily_averages\<close>, \<open>monthly_averages\<close>, \<open>returnperiods\<close>\<close>

text \<open>
  The three read the query parameters from \<open>event["requestContext"]\<close>; the lookup comes
  before \<open>int(path[2])\<close> and its exceptions are not caught by the handler.
\<close>

definition context_params :: "dict \<Rightarrow> exn + json" where
  "context_params event =
     bindE (dict_item event ''requestContext'') (\<lambda>rc.
     bindE (py_get rc ''queryStringParameters'') (\<lambda>q. Inr (params_or_empty q)))"

definition daily_averages :: "('v, 'r) env \<Rightarrow> string list \<Rightarrow> dict \<Rightarrow> exn + json" where
  "daily_averages env path event =
     (if \<not> length path > 2 then Inr no_reach_id
      else
        bindE (context_params event) (\<lambda>params.
        case py_int env (path ! 2) of
          None \<Rightarrow> Inr (bad_reach_id (path ! 2))
        | Some reach_id \<Rightarrow>
            bindE (retrospective_df env reach_id (JDict [])) (\<lambda>df0.
            let df = groupby_mean (mean env) strftime_md df0 in
            bindE (format_output params (to_csv (csv_value env) df)
                     (to_json_noindex (index_false_refused env)
                        (json_columns (\<lambda>k. k) (json_value env) df))) (\<lambda>output.
            Inr (ok_response output)))))"

definition monthly_averages :: "('v, 'r) env \<Rightarrow> string list \<Rightarrow> dict \<Rightarrow> exn + json" where
  "monthly_averages env path event =
     (if \<not> length path > 2 then Inr no_reach_id
      else
        bindE (context_params event) (\<lambda>params.
        case py_int env (path ! 2) of
          None \<Rightarrow> Inr (bad_reach_id (path ! 2))
        | Some reach_id \<Rightarrow>
            bindE (retrospective_df env reach_id (JDict [])) (\<lambda>df0.
            let df = groupby_mean (mean env) strftime_m df0 in
            bindE (format_output params (to_csv (csv_value env) df)
                     (to_json_noindex (index_false_refused env)
                        (json_columns (\<lambda>k. k) (json_value env) df))) (\<lambda>output.
            Inr (ok_response output)))))"

text \<open>
  The two differ only in the \<open>strftime\<close> format; \<open>averages\<close> is their common body with
  the key as an argument, for the proofs.
\<close>

definition averages ::
  "(timestamp \<Rightarrow> string) \<Rightarrow> ('v, 'r) env \<Rightarrow> string list \<Rightarrow> dict \<Rightarrow> exn + json" where
  "averages key env path event =
     (if \<not> length path > 2 then Inr no_reach_id
      else
        bindE (context_params event) (\<lambda>params.
        case py_int env (path ! 2) of
          None \<Rightarrow> Inr (bad_reach_id (path ! 2))
        | Some reach_id \<Rightarrow>
            bindE (retrospective_df env reach_id (JDict [])) (\<lambda>df0.
            let df = groupby_mean (mean env) key df0 in
            bindE (format_output params (to_csv (csv_value env) df)
                     (to_json_noindex (index_false_refused env)
                        (json_columns (\<lambda>k. k) (json_value env) df))) (\<lambda>output.
            Inr (ok_response output)))))"

definition returnperiods :: "('v, 'r) env \<Rightarrow> string list \<Rightarrow> dict \<Rightarrow> exn + json" where
  "returnperiods env path event =
     (if \<not> length path > 2 then Inr no_reach_id
      else
        bindE (context_params event) (\<lambda>params.
        case py_int env (path ! 2) of
          None \<Rightarrow> Inr (bad_reach_id (path ! 2))
        | Some reach_id \<Rightarrow>
            bindE (open_returnperiods env reach_id) (\<lambda>df.
            bindE (format_output params (rp_to_csv env df)
                     (to_json_noindex (index_false_refused env) (rp_to_json env df))) (\<lambda>output.
            Inr (ok_response output)))))"

subsection \<open>\<open>check_if_valid_request\<close> and \<open>lambda_handler\<close>\<close>

text \<open>\<open>check_if_valid_request\<close> returns the list of path segments or an error dictionary.\<close>

datatype pathres = PathList "string list" | ErrDict dict

definition request_path :: "dict \<Rightarrow> exn + string list" where
  "request_path event =
     bindE (dict_item event ''requestContext'') (\<lambda>rc.
     bindE (py_getitem rc ''http'') (\<lambda>http.
     bindE (py_getitem http ''path'') (\<lambda>p.
     bindE (py_split p) (\<lambda>parts. Inr (tl parts)))))"

definition check_if_valid_request :: "dict \<Rightarrow> pathres" where
  "check_if_valid_request event =
     (case request_path event of
        Inl e \<Rightarrow> ErrDict [(''statesCode'', JInt 400), (''body'', JStr ''Bad request'')]
      | Inr path \<Rightarrow>
          if path \<noteq> [] \<and> hd path \<noteq> ''v2''
          then ErrDict [(''statesCode'', JInt 422), (''body'', JStr (''No V2 in '' @ py_str_list path))]
          else PathList path)"

text \<open>
  The \<open>try\<close> block of \<open>lambda_handler\<close>. \<open>path[1]\<close> on the error dictionary is a \<open>KeyError\<close>
  (its keys are strings), on a list shorter than two an \<open>IndexError\<close>; the test
  \<open>if not len(path) > 1: pass\<close> does nothing. The result \<open>None\<close> is the end of the block
  with no \<open>return\<close> executed.
\<close>

definition dispatch :: "('v, 'r) env \<Rightarrow> dict \<Rightarrow> exn + json option" where
  "dispatch env event =
     (case check_if_valid_request event of
        ErrDict d \<Rightarrow> Inl (Exn KeyError ''1'')
      | PathList path \<Rightarrow>
          if \<not> 1 < length path then Inl (Exn IndexError ''list index out of range'')
          else if path ! 1 = ''retrospective'' then map_sum id Some (retrospective env path event)
          else if path ! 1 = ''daily_averages'' then map_sum id Some (daily_averages env path event)
          else if path ! 1 = ''monthly_averages'' then map_sum id Some (monthly_averages env path event)
          else if path ! 1 = ''returnperiods'' then map_sum id Some (returnperiods env path event)
          else Inr None)"

definition lambda_handler :: "('v, 'r) env \<Rightarrow> dict \<Rightarrow> json" where
  "lambda_handler env event =
     (case dispatch env event of
        Inl e \<Rightarrow> error_response 400 (''Bad request: '' @ exn_str e)
      | Inr (Some response) \<Rightarrow> response
      | Inr None \<Rightarrow> JDict [(''statusCode'', JInt 200), (''body'', JStr (json_dumps (JDict event)))])"


section \<open>Reading a response\<close>

text \<open>
  A success is a dictionary with the key \<open>statusCode\<close>; an error envelope is a dictionary
  \<open>{'statesCode': c, 'body': message}\<close> with \<open>c\<close> in the 4xx class.
\<close>

fun status_code :: "json \<Rightarrow> int option" where
  "status_code (JDict d) = (case map_of d ''statusCode'' of Some (JInt c) \<Rightarrow> Some c | _ \<Rightarrow> None)"
| "status_code v = None"

fun is_error_response :: "json \<Rightarrow> bool" where
  "is_error_response (JDict [(k, JInt c), (b, JStr m)]) =
     (k = ''statesCode'' \<and> b = ''body'' \<and> 400 \<le> c \<and> c < 500)"
| "is_error_response v = False"

text \<open>
  Reading a JSON string literal back: the text between the two double quotes, with
  the escapes undone. A raw double quote or control character inside, an unknown
  escape, and a \<open>\u\<close> escape beyond code point 255 are refused.
\<close>

definition hex_val :: "char \<Rightarrow> nat option" where
  "hex_val c =
     (let n = (of_char c :: nat) in
      if 48 \<le> n \<and> n \<le> 57 then Some (n - 48)
      else if 97 \<le> n \<and> n \<le> 102 then Some (n - 87)
      else if 65 \<le> n \<and> n \<le> 70 then Some (n - 55)
      else None)"

definition unescape_simple :: "char \<Rightarrow> char option" where
  "unescape_simple e =
     (if e = CHR 0x22 then Some (CHR 0x22)
      else if e = CHR 0x5C then Some (CHR 0x5C)
      else if e = CHR ''/'' then Some (CHR ''/'')
      else if e = CHR ''n'' then Some (CHR 0x0A)
      else if e = CHR ''r'' then Some (CHR 0x0D)
      else if e = CHR ''t'' then Some (CHR 0x09)
      else if e = CHR ''b'' then Some (CHR 0x08)
      else if e = CHR ''f'' then Some (CHR 0x0C)
      else None)"

fun json_unescape :: "string \<Rightarrow> string option" where
  "json_unescape [] = Some []"
| "json_unescape (c # cs) =
     (if c = CHR 0x22 \<or> (of_char c :: nat) < 32 then None
      else if c \<noteq> CHR 0x5C then map_option ((#) c) (json_unescape cs)
      else (case cs of
              [] \<Rightarrow> None
            | e # r1 \<Rightarrow>
                if e \<noteq> CHR ''u''
                then (case unescape_simple e of
                        None \<Rightarrow> None
                      | Some x \<Rightarrow> map_option ((#) x) (json_unescape r1))
                else (case r1 of
                        a # b # h # l # r2 \<Rightarrow>
                          (if a = CHR ''0'' \<and> b = CHR ''0''
                           then (case (hex_val h, hex_val l) of
                                   (Some x, Some y) \<Rightarrow>
                                     map_option ((#) (char_of (16 * x + y))) (json_unescape r2)
                                 | _ \<Rightarrow> None)
                           else None)
                      | _ \<Rightarrow> None)))"

definition json_loads_str :: "string \<Rightarrow> string option" where
  "json_loads_str s =
     (case s of
        [] \<Rightarrow> None
      | q # rest \<Rightarrow>
          if q = CHR 0x22 \<and> rest \<noteq> [] \<and> last rest = CHR 0x22
          then json_unescape (butlast rest) else None)"

text \<open>The four endpoint names that \<open>lambda_handler\<close> tests for.\<close>

definition endpoints :: "string list" where
  "endpoints = [''retrospective'', ''daily_averages'', ''monthly_averages'', ''returnperiods'']"

text \<open>The fields of the first line of a CSV text.\<close>

definition header_fields :: "string \<Rightarrow> string list" where
  "header_fields csv = split_on CHR '','' (takeWhile (\<lambda>c. c \<noteq> CHR 0x0A) csv)"

text \<open>
  The rows between two optional bounds, both inclusive: what the date filters are meant
  to keep.
\<close>

definition within :: "timestamp option \<Rightarrow> timestamp option \<Rightarrow> timestamp \<Rightarrow> bool" where
  "within lo hi t = ((case lo of None \<Rightarrow> True | Some l \<Rightarrow> l \<le> t) \<and> (case hi of None \<Rightarrow> True | Some u \<Rightarrow> t \<le> u))"

text \<open>
  A date parameter as a request carries it: absent, or present with a text that
  \<open>pd.to_datetime\<close> turns into a timestamp without time zone.
\<close>

definition date_param :: "('v, 'r) env \<Rightarrow> dict \<Rightarrow> string \<Rightarrow> timestamp option \<Rightarrow> bool" where
  "date_param env ps k bound =
     (case bound of
        None \<Rightarrow> map_of ps k = None
      | Some d \<Rightarrow> (case map_of ps k of None \<Rightarrow> False
                  | Some x \<Rightarrow> truthy x \<and> to_datetime env x = Inr (At d)))"

text \<open>
  The query parameters at the place where the endpoint looks for them: \<open>retrospective\<close>
  reads \<open>event["queryStringParameters"]\<close>, the other three read
  \<open>event["requestContext"]["queryStringParameters"]\<close>.
\<close>

definition query_params :: "string \<Rightarrow> dict \<Rightarrow> json option" where
  "query_params ep event =
     (if ep = ''retrospective'' then map_of event ''queryStringParameters''
      else (case map_of event ''requestContext'' of
              Some (JDict rc) \<Rightarrow> map_of rc ''queryStringParameters''
            | _ \<Rightarrow> None))"

text \<open>
  Two dictionaries that agree on every key but \<open>k\<close>, and two events that differ only in
  the query parameters at one of the two places.
\<close>

definition same_except :: "dict \<Rightarrow> dict \<Rightarrow> string \<Rightarrow> bool" where
  "same_except d1 d2 k =
     (\<forall>k' \<in> set (map fst d1 @ map fst d2). k' \<noteq> k \<longrightarrow> map_of d1 k' = map_of d2 k')"

definition differ_only_outer :: "dict \<Rightarrow> dict \<Rightarrow> bool" where
  "differ_only_outer e1 e2 = same_except e1 e2 ''queryStringParameters''"

definition differ_only_nested :: "dict \<Rightarrow> dict \<Rightarrow> bool" where
  "differ_only_nested e1 e2 =
     (same_except e1 e2 ''requestContext'' \<and>
      (case (map_of e1 ''requestContext'', map_of e2 ''requestContext'') of
         (Some (JDict c1), Some (JDict c2)) \<Rightarrow> same_except c1 c2 ''queryStringParameters''
       | (a, b) \<Rightarrow> a = b))"

section \<open>An example environment\<close>

text \<open>
  Concrete stand-ins for the libraries and the stores, to run the handlers on concrete
  events: a store with the reach 12345678 and five daily rows (2019-12-31 to 2020-01-03,
  and 2021-01-01), \<open>int\<close> on digit strings, and \<open>pd.to_datetime\<close> on the four texts
  used below (any other text is refused). The flow values are whole numbers: the mean
  is the quotient of sum and count (exact on the groups of these rows) and a value is
  written with its decimal digits. These stand for what pandas computes on
  floating-point numbers. \<open>demo_env\<close> has a pandas that ignores \<open>index=False\<close>,
  \<open>demo_env_strict\<close> one that refuses it.
\<close>

definition day :: "int \<Rightarrow> timestamp" where
  "day n = n * ns_per_day"

definition demo_series :: "(timestamp \<times> int) list" where
  "demo_series = [(day 18261, 10), (day 18262, 20), (day 18263, 30), (day 18264, 40), (day 18628, 70)]"

definition digits_int :: "string \<Rightarrow> int option" where
  "digits_int s =
     (if s \<noteq> [] \<and> (\<forall>c \<in> set s. CHR ''0'' \<le> c \<and> c \<le> CHR ''9'')
      then Some (foldl (\<lambda>a c. 10 * a + (int (of_char c) - 48)) 0 s) else None)"

definition demo_datetime :: "json \<Rightarrow> exn + stamp" where
  "demo_datetime x =
     (if x = JStr ''2020-01-01'' then Inr (At (day 18262))
      else if x = JStr ''2020-01-02'' then Inr (At (day 18263))
      else if x = JStr ''2020-01-01T00:00:00Z'' then Inr (AtTz (day 18262))
      else if x = JStr ''NaT'' then Inr NaT
      else Inl (Exn ValueError ''Unknown datetime string format''))"

definition demo_env :: "(int, (string \<times> int) list) env" where
  "demo_env =
     \<lparr>py_int = digits_int,
      open_retrospective = (\<lambda>r. if r = 12345678 then Inr demo_series
                                 else Inl (Exn KeyError (show_int r))),
      open_returnperiods = (\<lambda>r. if r = 12345678 then Inr [(''return_period_2'', 100), (''return_period_5'', 150)]
                                 else Inl (Exn KeyError (show_int r))),
      to_datetime = demo_datetime,
      mean = (\<lambda>xs. sum_list xs div int (length xs)),
      csv_value = show_int,
      json_value = show_int,
      index_false_refused = False,
      rp_to_csv = (\<lambda>t. join '','' (map fst t) @ [CHR 0x0A] @ join '','' (map (\<lambda>c. show_int (snd c)) t) @ [CHR 0x0A]),
      rp_to_json = (\<lambda>t. ''{'' @ join '','' (map (\<lambda>c. json_dumps_str (fst c) @ '':'' @ show_int (snd c)) t) @ ''}'')\<rparr>"

definition demo_env_strict :: "(int, (string \<times> int) list) env" where
  "demo_env_strict = demo_env\<lparr>index_false_refused := True\<rparr>"

text \<open>
  An event with the request path, the query parameters at the top level and the query
  parameters inside \<open>requestContext\<close>.
\<close>

definition event_of :: "string \<Rightarrow> dict \<Rightarrow> dict \<Rightarrow> dict" where
  "event_of p outer nested =
     [(''requestContext'', JDict [(''http'', JDict [(''path'', JStr p)]),
                                  (''queryStringParameters'', JDict nested)]),
      (''queryStringParameters'', JDict outer)]"

section \<open>The grouped tables\<close>

lemma daily_averages_averages: "daily_averages = averages strftime_md"
  by (intro ext) (simp add: daily_averages_def averages_def)

lemma monthly_averages_averages: "monthly_averages = averages strftime_m"
  by (intro ext) (simp add: monthly_averages_def averages_def)

text \<open>The calendar on some known days: 1970-01-01, 1969-12-31, 2000-02-29, 2020-02-29, 2020-03-01.\<close>

lemma calendar_examples:
  "strftime_md (day 0) = ''0101''" "strftime_md (day (- 1)) = ''1231''"
  "strftime_md (day 11016) = ''0229''" "strftime_md (day 18321) = ''0229''"
  "strftime_md (day 18322) = ''0301''" "strftime_m (day 18322) = ''03''"
  by (simp_all add: strftime_md_def strftime_m_def pad2_def month_of_def day_of_def month_index_def
        day_of_year_def day_of_era_def day_def ns_per_day_def Let_def show_nat.simps digit_char_def)

lemma day_of_year_le: "day_of_year t \<le> 365"
proof -
  define d4 where "d4 = (day_of_era t - 36524 * min (day_of_era t div 36524) 3) mod 1461"
  have b: "0 \<le> d4" "d4 < 1461" by (simp_all add: d4_def)
  have "d4 - 365 * min (d4 div 365) 3 \<le> 365"
  proof (cases "d4 div 365 \<le> 3")
    case True
    have "d4 - 365 * (d4 div 365) = d4 mod 365" by (simp add: minus_mult_div_eq_mod)
    moreover have "d4 mod 365 < 365" by simp
    ultimately show ?thesis using True by (simp add: min_def)
  next
    case False
    then show ?thesis using b by (simp add: min_def)
  qed
  then show ?thesis by (simp add: day_of_year_def Let_def d4_def [symmetric])
qed

lemma month_index_le: "doy \<le> 365 \<Longrightarrow> month_index doy \<le> 11"
  by (simp add: month_index_def)

lemma groupby_keys: "map fst (rows (groupby_mean avg key df)) = sort (remdups (map (\<lambda>r. key (fst r)) (rows df)))"
  by (simp add: groupby_mean_def comp_def)

lemma groupby_keys_set: "set (map fst (rows (groupby_mean avg key df))) = (\<lambda>r. key (fst r)) ` set (rows df)"
  by (simp add: groupby_keys del: set_map) (simp)

lemma groupby_keys_distinct: "distinct (map fst (rows (groupby_mean avg key df)))"
  by (simp add: groupby_keys)

lemma strftime_md_range: "strftime_md t \<in> (\<lambda>doy. pad2 (month_of doy) @ pad2 (day_of doy)) ` {0..365}"
  unfolding strftime_md_def using day_of_year_le [of t] by (intro image_eqI [where x = "day_of_year t"]) simp_all

lemma strftime_m_range: "strftime_m t \<in> (\<lambda>mp. pad2 (if mp < 10 then mp + 3 else mp - 9)) ` {0..11}"
  unfolding strftime_m_def month_of_def Let_def
  using month_index_le [OF day_of_year_le [of t]]
  by (intro image_eqI [where x = "month_index (day_of_year t)"]) simp_all

lemma card_keys_le:
  assumes "\<And>t. key t \<in> f ` {0..(n::nat)}"
  shows "length (rows (groupby_mean avg key df)) \<le> Suc n"
proof -
  let ?ks = "map fst (rows (groupby_mean avg key df))"
  have "set ?ks \<subseteq> f ` {0..n}" using assms by (auto simp: groupby_keys_set simp del: set_map)
  then have "card (set ?ks) \<le> card (f ` {0..n})" by (intro card_mono) simp_all
  also have "\<dots> \<le> card {0..n}" by (rule card_image_le) simp
  finally have "card (set ?ks) \<le> Suc n" by simp
  moreover have "card (set ?ks) = length ?ks" using groupby_keys_distinct by (rule distinct_card)
  ultimately show ?thesis by simp
qed

text \<open>
  Claim C9. Whatever the time series, the table grouped by \<open>strftime('%m%d')\<close> that
  \<open>daily_averages\<close> builds has distinct group keys and at most 366 of them, and the table
  grouped by \<open>strftime('%m')\<close> that \<open>monthly_averages\<close> builds has distinct group keys
  and at most 12 of them.
\<close>

theorem group_keys_bounded:
  "distinct (map fst (rows (groupby_mean avg strftime_md df))) \<and>
   length (rows (groupby_mean avg strftime_md df)) \<le> 366 \<and>
   distinct (map fst (rows (groupby_mean avg strftime_m df))) \<and>
   length (rows (groupby_mean avg strftime_m df)) \<le> 12"
  using card_keys_le [of strftime_md _ 365 avg df, OF strftime_md_range]
        card_keys_le [of strftime_m _ 11 avg df, OF strftime_m_range]
  by (simp add: groupby_keys_distinct)

section \<open>The date filter\<close>

lemma date_filter_absent: "map_of ps k = None \<Longrightarrow> date_filter env (JDict ps) k keep df = Inr df"
  by (simp add: date_filter_def dict_get_def)

lemma date_filter_present:
  "map_of ps k = Some x \<Longrightarrow> truthy x \<Longrightarrow> to_datetime env x = Inr d \<Longrightarrow>
   date_filter env (JDict ps) k keep df = keep d df"
  by (simp add: date_filter_def dict_get_def)

lemma date_filter_end:
  "date_param env ps ''end_date'' hi \<Longrightarrow>
   date_filter env (JDict ps) ''end_date'' keep_until df
     = Inr (df\<lparr>rows := filter (\<lambda>r. within None hi (fst r)) (rows df)\<rparr>)"
  by (cases hi)
     (auto simp: date_param_def date_filter_absent date_filter_present keep_until_def within_def
           split: option.splits)

lemma date_filter_start:
  "date_param env ps ''start_date'' lo \<Longrightarrow>
   date_filter env (JDict ps) ''start_date'' keep_from df
     = Inr (df\<lparr>rows := filter (\<lambda>r. within lo None (fst r)) (rows df)\<rparr>)"
  by (cases lo)
     (auto simp: date_param_def date_filter_absent date_filter_present keep_from_def within_def
           split: option.splits)

lemma within_split: "within lo hi t \<longleftrightarrow> within None hi t \<and> within lo None t"
  by (auto simp: within_def)

lemma retrospective_df_rows:
  assumes "open_retrospective env rid = Inr series"
      and "pivot rid series = Inr df"
      and "date_param env ps ''start_date'' lo"
      and "date_param env ps ''end_date'' hi"
  shows "retrospective_df env rid (JDict ps)
           = Inr (df\<lparr>rows := filter (\<lambda>r. within lo hi (fst r)) (rows df)\<rparr>)"
  using assms
  by (simp add: retrospective_df_def date_filter_end date_filter_start within_split [of lo hi])

lemma pivot_distinct:
  "distinct (map fst series) \<Longrightarrow>
   pivot rid series = Inr \<lparr>columns = (if series = [] then [] else [rid]),
                             rows = map (\<lambda>r. (fst r, [snd r])) (sort_key fst series)\<rparr>"
  by (simp add: pivot_def)

lemma pivot_duplicate:
  "\<not> distinct (map fst series) \<Longrightarrow>
   pivot rid series = Inl (Exn ValueError ''Index contains duplicate entries, cannot reshape'')"
  by (simp add: pivot_def)

lemma demo_pivot:
  "pivot 12345678 demo_series
     = Inr \<lparr>columns = [12345678],
            rows = [(day 18261, [10]), (day 18262, [20]), (day 18263, [30]), (day 18264, [40]),
                    (day 18628, [70])]\<rparr>"
  by (simp add: pivot_def demo_series_def day_def ns_per_day_def)

text \<open>
  Claim C7, as the code has it. For every time-indexed table (the pivoted rows of a
  reach) and start and end dates that are absent or that \<open>pd.to_datetime\<close> turns into
  timestamps without time zone, \<open>_retrospective\<close> keeps exactly the rows whose
  timestamp lies between the bounds, both inclusive; an absent date gives no bound.
  When both dates are the same timestamp, exactly the rows at that timestamp remain
  (none, if the table has no such row).
\<close>

theorem date_filter_inclusive:
  assumes "open_retrospective env rid = Inr series"
      and "pivot rid series = Inr df"
      and "date_param env ps ''start_date'' lo"
      and "date_param env ps ''end_date'' hi"
  shows "retrospective_df env rid (JDict ps)
           = Inr (df\<lparr>rows := filter (\<lambda>r. within lo hi (fst r)) (rows df)\<rparr>)
         \<and> (\<forall>d. lo = Some d \<and> hi = Some d \<longrightarrow>
               filter (\<lambda>r. within lo hi (fst r)) (rows df) = filter (\<lambda>r. fst r = d) (rows df))"
proof
  show "retrospective_df env rid (JDict ps)
           = Inr (df\<lparr>rows := filter (\<lambda>r. within lo hi (fst r)) (rows df)\<rparr>)"
    using assms by (rule retrospective_df_rows)
  show "\<forall>d. lo = Some d \<and> hi = Some d \<longrightarrow>
               filter (\<lambda>r. within lo hi (fst r)) (rows df) = filter (\<lambda>r. fst r = d) (rows df)"
    by (auto simp: within_def intro!: filter_cong)
qed

theorem date_filter_inclusive_witness:
  "open_retrospective demo_env 12345678 = Inr demo_series \<and>
   date_param demo_env [(''start_date'', JStr ''2020-01-01''), (''end_date'', JStr ''2020-01-01'')]
      ''start_date'' (Some (day 18262)) \<and>
   date_param demo_env [(''start_date'', JStr ''2020-01-01''), (''end_date'', JStr ''2020-01-01'')]
      ''end_date'' (Some (day 18262)) \<and>
   retrospective_df demo_env 12345678
      (JDict [(''start_date'', JStr ''2020-01-01''), (''end_date'', JStr ''2020-01-01'')])
     = Inr \<lparr>columns = [12345678], rows = [(day 18262, [20])]\<rparr>"
proof -
  let ?ps = "[(''start_date'', JStr ''2020-01-01''), (''end_date'', JStr ''2020-01-01'')]"
  have h1: "open_retrospective demo_env 12345678 = Inr demo_series"
    by (simp add: demo_env_def)
  have h2: "date_param demo_env ?ps ''start_date'' (Some (day 18262))"
    by (simp add: date_param_def demo_env_def demo_datetime_def)
  have h3: "date_param demo_env ?ps ''end_date'' (Some (day 18262))"
    by (simp add: date_param_def demo_env_def demo_datetime_def)
  have "filter (\<lambda>r. fst r = day 18262)
          [(day 18261, [10::int]), (day 18262, [20]), (day 18263, [30]), (day 18264, [40]),
           (day 18628, [70])]
        = [(day 18262, [20])]"
    by (simp add: day_def ns_per_day_def)
  with date_filter_inclusive [OF h1 demo_pivot h2 h3] h1 h2 h3 show ?thesis by simp
qed

text \<open>
  The claim as first stated takes every date that parses. A date with a time zone
  parses, but the comparison of the index with it raises: no row is kept and the
  request is answered with the error envelope.
\<close>

theorem date_filter_tz_counterexample:
  "to_datetime demo_env (JStr ''2020-01-01T00:00:00Z'') = Inr (AtTz (day 18262))
   \<and> open_retrospective demo_env 12345678 = Inr demo_series
   \<and> isl (retrospective_df demo_env 12345678
             (JDict [(''start_date'', JStr ''2020-01-01T00:00:00Z'')]))
   \<and> is_error_response
        (lambda_handler demo_env
           (event_of ''/v2/retrospective/12345678''
              [(''start_date'', JStr ''2020-01-01T00:00:00Z'')] []))"
  by (simp add: lambda_handler_def dispatch_def check_if_valid_request_def request_path_def
        event_of_def dict_item_def dict_get_def retrospective_def params_or_empty_def
        retrospective_df_def demo_pivot date_filter_def keep_from_def keep_until_def
        demo_env_def demo_datetime_def digits_int_def error_response_def)

section \<open>The dispatcher\<close>

lemma check_path:
  "request_path event = Inr path \<Longrightarrow>
   check_if_valid_request event =
     (if path \<noteq> [] \<and> hd path \<noteq> ''v2''
      then ErrDict [(''statesCode'', JInt 422), (''body'', JStr (''No V2 in '' @ py_str_list path))]
      else PathList path)"
  by (simp add: check_if_valid_request_def)

lemma dispatch_v2:
  "request_path event = Inr (''v2'' # seg # rest) \<Longrightarrow>
   dispatch env event =
     (if seg = ''retrospective'' then map_sum id Some (retrospective env (''v2'' # seg # rest) event)
      else if seg = ''daily_averages'' then map_sum id Some (daily_averages env (''v2'' # seg # rest) event)
      else if seg = ''monthly_averages'' then map_sum id Some (monthly_averages env (''v2'' # seg # rest) event)
      else if seg = ''returnperiods'' then map_sum id Some (returnperiods env (''v2'' # seg # rest) event)
      else Inr None)"
  by (simp add: dispatch_def check_path)

lemma dispatch_not_v2:
  "request_path event = Inr (seg # rest) \<Longrightarrow> seg \<noteq> ''v2'' \<Longrightarrow>
   dispatch env event = Inl (Exn KeyError ''1'')"
  by (simp add: dispatch_def check_path)

lemma dispatch_short:
  "request_path event = Inr path \<Longrightarrow> length path < 2 \<Longrightarrow> path = [] \<or> hd path = ''v2'' \<Longrightarrow>
   dispatch env event = Inl (Exn IndexError ''list index out of range'')"
  by (auto simp: dispatch_def check_path)

lemma handler_of_dispatch:
  "dispatch env event = map_sum id Some res \<Longrightarrow>
   lambda_handler env event =
     (case res of Inl e \<Rightarrow> error_response 400 (''Bad request: '' @ exn_str e) | Inr r \<Rightarrow> r)"
  by (cases res) (simp_all add: lambda_handler_def)

lemma is_error_error_response [simp]:
  "is_error_response (error_response c m) \<longleftrightarrow> 400 \<le> c \<and> c < 500"
  by (simp add: error_response_def)

lemma status_code_error_response [simp]: "status_code (error_response c m) = None"
  by (simp add: error_response_def)

lemma status_code_ok_response [simp]: "status_code (ok_response out) = Some 200"
  by (simp add: ok_response_def)

lemma not_error_ok_response [simp]: "\<not> is_error_response (ok_response out)"
  by (simp add: ok_response_def)

lemma invalid_version_general:
  "request_path event = Inr (seg # rest) \<Longrightarrow> seg \<noteq> ''v2'' \<Longrightarrow>
   lambda_handler env event = error_response 400 ''Bad request: 1''"
  by (simp add: lambda_handler_def dispatch_not_v2)

lemma handlers_short:
  "length path \<le> 2 \<Longrightarrow> retrospective env path event = Inr no_reach_id"
  "length path \<le> 2 \<Longrightarrow> daily_averages env path event = Inr no_reach_id"
  "length path \<le> 2 \<Longrightarrow> monthly_averages env path event = Inr no_reach_id"
  "length path \<le> 2 \<Longrightarrow> returnperiods env path event = Inr no_reach_id"
  by (simp_all add: retrospective_def daily_averages_averages monthly_averages_averages averages_def
                    returnperiods_def)

lemma no_reach_id_error: "is_error_response no_reach_id"
  by (simp add: no_reach_id_def)

text \<open>
  Claim C1, as the code has it. For every event whose path begins with the segment
  \<open>v2\<close> and whose second segment is none of \<open>retrospective\<close>, \<open>daily_averages\<close>,
  \<open>monthly_averages\<close>, \<open>returnperiods\<close>, no branch of \<open>lambda_handler\<close> returns and
  the final \<open>return\<close> answers with \<open>statusCode\<close> 200 and the event itself, JSON-encoded,
  as body; the answer is not an error envelope.
\<close>

theorem unknown_endpoint_echo:
  assumes "request_path event = Inr (''v2'' # seg # rest)"
      and "seg \<notin> set endpoints"
  shows "lambda_handler env event
           = JDict [(''statusCode'', JInt 200), (''body'', JStr (json_dumps (JDict event)))]
         \<and> \<not> is_error_response (lambda_handler env event)"
  using assms by (simp add: lambda_handler_def dispatch_v2 endpoints_def)

theorem unknown_endpoint_echo_witness:
  "request_path (event_of ''/v2/forecast/12345678'' [] []) = Inr [''v2'', ''forecast'', ''12345678'']
   \<and> ''forecast'' \<notin> set endpoints
   \<and> status_code (lambda_handler demo_env (event_of ''/v2/forecast/12345678'' [] [])) = Some 200"
proof -
  let ?ev = "event_of ''/v2/forecast/12345678'' [] []"
  have h1: "request_path ?ev = Inr (''v2'' # ''forecast'' # [''12345678''])"
    by (simp add: request_path_def event_of_def dict_item_def)
  have h2: "''forecast'' \<notin> set endpoints" by (simp add: endpoints_def)
  from unknown_endpoint_echo [OF h1 h2, of demo_env] h1 h2 show ?thesis by simp
qed

theorem unknown_endpoint_counterexample:
  "lambda_handler demo_env (event_of ''/v2/forecast/12345678'' [] [])
     = JDict [(''statusCode'', JInt 200),
              (''body'', JStr (json_dumps (JDict (event_of ''/v2/forecast/12345678'' [] []))))]
   \<and> \<not> is_error_response (lambda_handler demo_env (event_of ''/v2/forecast/12345678'' [] []))"
  by (simp add: lambda_handler_def dispatch_def check_if_valid_request_def request_path_def
                event_of_def dict_item_def)

text \<open>
  Claim C4 says that a path whose first segment is not \<open>v2\<close> is answered with the
  error envelope of the invalid version, whose message holds the rejected path.
  \<open>check_if_valid_request\<close> builds that dictionary, but \<open>lambda_handler\<close> subscripts it
  with \<open>[1]\<close> as if it were the list of segments: the \<open>KeyError\<close> is caught and the
  answer is \<open>Bad request: 1\<close>. The evaluation at \<open>/v1/retrospective/12345678\<close>:
\<close>

theorem invalid_version_lost:
  "check_if_valid_request (event_of ''/v1/retrospective/12345678'' [] [])
     = ErrDict [(''statesCode'', JInt 422),
                (''body'', JStr ''No V2 in ['v1', 'retrospective', '12345678']'')]
   \<and> lambda_handler demo_env (event_of ''/v1/retrospective/12345678'' [] [])
     = JDict [(''statesCode'', JInt 400), (''body'', JStr ''Bad request: 1'')]"
  by code_simp

text \<open>
  Claim C6, as the code has it. For every event whose path has fewer than three
  segments, the response is an error envelope and not a 200 success, unless the path is
  \<open>v2\<close> followed by a name that is not an endpoint (the case of claim C1); when the
  path is \<open>v2\<close> followed by the name of an endpoint, the response is the envelope with
  code 422 that signals the missing reach id. In particular the path \<open>/v2\<close> alone
  yields an error envelope.
\<close>

theorem short_path_responses:
  assumes "request_path event = Inr path"
      and "length path < 3"
  shows "(length path = 2 \<and> hd path = ''v2'' \<and> path ! 1 \<in> set endpoints
            \<longrightarrow> lambda_handler env event = no_reach_id)
         \<and> (\<not> (length path = 2 \<and> hd path = ''v2'' \<and> path ! 1 \<notin> set endpoints)
            \<longrightarrow> is_error_response (lambda_handler env event))"
proof -
  have two: "lambda_handler env event = no_reach_id"
    if "length path = 2" "hd path = ''v2''" "path ! 1 \<in> set endpoints"
  proof -
    from that obtain ep where p: "path = [''v2'', ep]"
      by (cases path; cases "tl path") auto
    with that have "ep \<in> set endpoints" by simp
    then show ?thesis
      using assms(1) unfolding p
      by (auto simp: lambda_handler_def dispatch_v2 handlers_short endpoints_def)
  qed
  have other: "is_error_response (lambda_handler env event)"
    if n: "\<not> (length path = 2 \<and> hd path = ''v2'' \<and> path ! 1 \<notin> set endpoints)"
  proof (cases "path \<noteq> [] \<and> hd path \<noteq> ''v2''")
    case True
    then obtain seg rest where "path = seg # rest" "seg \<noteq> ''v2''" by (cases path) auto
    with assms(1) show ?thesis by (simp add: invalid_version_general)
  next
    case False
    show ?thesis
    proof (cases "length path < 2")
      case True
      with False assms(1) show ?thesis
        by (simp add: lambda_handler_def dispatch_short)
    next
      case False
      with assms(2) have "length path = 2" by simp
      with n \<open>\<not> (path \<noteq> [] \<and> hd path \<noteq> ''v2'')\<close> two show ?thesis
        by (auto simp: no_reach_id_error)
    qed
  qed
  from two other show ?thesis by blast
qed

theorem short_path_responses_witness:
  "request_path (event_of ''/v2/retrospective'' [] []) = Inr [''v2'', ''retrospective'']
   \<and> lambda_handler demo_env (event_of ''/v2/retrospective'' [] [])
       = JDict [(''statesCode'', JInt 422), (''body'', JStr ''Bad request: No reachID specified'')]
   \<and> request_path (event_of ''/v2'' [] []) = Inr [''v2'']
   \<and> is_error_response (lambda_handler demo_env (event_of ''/v2'' [] []))"
proof -
  have h1: "request_path (event_of ''/v2/retrospective'' [] []) = Inr [''v2'', ''retrospective'']"
    by (simp add: request_path_def event_of_def dict_item_def)
  have h2: "request_path (event_of ''/v2'' [] []) = Inr [''v2'']"
    by (simp add: request_path_def event_of_def dict_item_def)
  have l1: "length [''v2'', ''retrospective''] < 3" and l2: "length [''v2''] < 3" by simp_all
  from short_path_responses [OF h1 l1, of demo_env] short_path_responses [OF h2 l2, of demo_env] h1 h2
  show ?thesis by (simp add: endpoints_def no_reach_id_def error_response_def)
qed

theorem short_path_counterexample:
  "request_path (event_of ''/v2/forecast'' [] []) = Inr [''v2'', ''forecast'']
   \<and> status_code (lambda_handler demo_env (event_of ''/v2/forecast'' [] [])) = Some 200
   \<and> \<not> is_error_response (lambda_handler demo_env (event_of ''/v2/forecast'' [] []))"
  by (simp add: lambda_handler_def dispatch_def check_if_valid_request_def request_path_def
                event_of_def dict_item_def)


section \<open>The four handlers\<close>

text \<open>Unfolding sets for running the handlers on the example environment.\<close>

lemmas handler_defs =
  lambda_handler_def dispatch_def check_if_valid_request_def request_path_def event_of_def
  dict_item_def dict_get_def retrospective_def daily_averages_averages monthly_averages_averages
  averages_def returnperiods_def context_params_def params_or_empty_def format_output_def
  retrospective_df_def date_filter_def keep_until_def keep_from_def to_csv_def
  no_reach_id_def bad_reach_id_def error_response_def pivot_def to_json_noindex_def
  json_columns_def epoch_ms_def

lemmas demo_defs =
  demo_env_def demo_env_strict_def demo_series_def demo_datetime_def digits_int_def day_def
  ns_per_day_def show_int_def show_nat.simps digit_char_def

lemma bindE_case: "bindE m f = (case m of Inl e \<Rightarrow> Inl e | Inr x \<Rightarrow> f x)"
  by (cases m) simp_all

lemma bindE_Inr: "bindE m f = Inr y \<longleftrightarrow> (\<exists>x. m = Inr x \<and> f x = Inr y)"
  by (cases m) simp_all

lemma params_or_empty_dict [simp]: "params_or_empty (JDict ps) = JDict ps"
  by (simp add: params_or_empty_def)

lemma outer_params:
  "map_of event ''queryStringParameters'' = Some (JDict ps) \<Longrightarrow>
   params_or_empty (dict_get event ''queryStringParameters'') = JDict ps"
  by (simp add: dict_get_def)

lemma request_path_context:
  "request_path event = Inr path \<Longrightarrow> \<exists>rc. map_of event ''requestContext'' = Some (JDict rc)"
proof -
  assume a: "request_path event = Inr path"
  then obtain v where v: "map_of event ''requestContext'' = Some v"
    by (cases "map_of event ''requestContext''") (simp_all add: request_path_def dict_item_def)
  with a show ?thesis
    by (cases v) (simp_all add: request_path_def dict_item_def)
qed

lemma nested_params:
  "map_of event ''requestContext'' = Some (JDict rc) \<Longrightarrow>
   map_of rc ''queryStringParameters'' = Some (JDict ps) \<Longrightarrow>
   context_params event = Inr (JDict ps)"
  by (simp add: context_params_def dict_item_def dict_get_def)

lemma query_params_nested:
  assumes "query_params ep event = Some (JDict ps)" and "ep \<noteq> ''retrospective''"
  shows "context_params event = Inr (JDict ps)"
proof -
  from assms obtain rc where "map_of event ''requestContext'' = Some (JDict rc)"
      "map_of rc ''queryStringParameters'' = Some (JDict ps)"
    by (auto simp: query_params_def split: option.splits json.splits)
  then show ?thesis by (rule nested_params)
qed

lemma retrospective_run:
  "2 < length path \<Longrightarrow> py_int env (path ! 2) = Some rid \<Longrightarrow>
   params_or_empty (dict_get event ''queryStringParameters'') = params \<Longrightarrow>
   retrospective env path event =
     bindE (retrospective_df env rid params) (\<lambda>df.
     bindE (format_output params (to_csv (csv_value env) df)
              (to_json_noindex (index_false_refused env)
                 (json_columns epoch_ms (json_value env) df))) (\<lambda>output.
     Inr (ok_response output)))"
  by (simp add: retrospective_def)

lemma averages_run:
  "2 < length path \<Longrightarrow> py_int env (path ! 2) = Some rid \<Longrightarrow>
   context_params event = Inr params \<Longrightarrow>
   averages key env path event =
     bindE (retrospective_df env rid (JDict [])) (\<lambda>df0.
     bindE (format_output params (to_csv (csv_value env) (groupby_mean (mean env) key df0))
              (to_json_noindex (index_false_refused env)
                 (json_columns (\<lambda>k. k) (json_value env) (groupby_mean (mean env) key df0)))) (\<lambda>output.
     Inr (ok_response output)))"
  by (simp add: averages_def Let_def)

lemma returnperiods_run:
  "2 < length path \<Longrightarrow> py_int env (path ! 2) = Some rid \<Longrightarrow>
   context_params event = Inr params \<Longrightarrow>
   returnperiods env path event =
     bindE (open_returnperiods env rid) (\<lambda>df.
     bindE (format_output params (rp_to_csv env df)
              (to_json_noindex (index_false_refused env) (rp_to_json env df))) (\<lambda>output.
     Inr (ok_response output)))"
  by (simp add: returnperiods_def)

lemma format_absent:
  "\<not> truthy (dict_get ps ''format'') \<Longrightarrow> format_output (JDict ps) csv js = Inr csv"
  by (simp add: format_output_def)

lemma format_json:
  "map_of ps ''format'' = Some (JStr ''json'') \<Longrightarrow> format_output (JDict ps) csv js = js"
  by (simp add: format_output_def dict_get_def)

lemma format_unsupported:
  "map_of ps ''format'' = Some f \<Longrightarrow> truthy f \<Longrightarrow> f \<noteq> JStr ''csv'' \<Longrightarrow> f \<noteq> JStr ''json'' \<Longrightarrow>
   format_output (JDict ps) csv js = Inl (Exn ValueError [])"
  by (simp add: format_output_def dict_get_def)

lemma format_output_Inr:
  "format_output params csv js = Inr out \<Longrightarrow> out = csv \<or> js = Inr out"
  by (cases "py_get params ''format''") (auto simp: format_output_def split: if_splits)

lemma retrospective_df_plain:
  "open_retrospective env rid = Inr series \<Longrightarrow> pivot rid series = Inr df \<Longrightarrow>
   retrospective_df env rid (JDict []) = Inr df"
  by (simp add: retrospective_df_def date_filter_def dict_get_def)

lemma handler_fails:
  "dispatch env event = map_sum id Some res \<Longrightarrow>
   (case res of Inl e \<Rightarrow> True | Inr r \<Rightarrow> is_error_response r) \<Longrightarrow>
   is_error_response (lambda_handler env event)"
  by (cases res) (simp_all add: lambda_handler_def)

lemma bad_reach_id_error: "is_error_response (bad_reach_id seg)"
  by (simp add: bad_reach_id_def)

lemma retrospective_unsupported:
  assumes "map_of event ''queryStringParameters'' = Some (JDict ps)"
      and "map_of ps ''format'' = Some f" "truthy f" "f \<noteq> JStr ''csv''" "f \<noteq> JStr ''json''"
  shows "case retrospective env path event of Inl e \<Rightarrow> True | Inr r \<Rightarrow> is_error_response r"
proof (cases "2 < length path")
  case False
  then show ?thesis by (simp add: handlers_short no_reach_id_error)
next
  case True
  show ?thesis
  proof (cases "py_int env (path ! 2)")
    case None
    with True show ?thesis by (simp add: retrospective_def bad_reach_id_error)
  next
    case (Some rid)
    show ?thesis
      unfolding retrospective_run [OF True Some outer_params [OF assms(1)]]
      by (cases "retrospective_df env rid (JDict ps)")
         (simp_all add: format_unsupported [OF assms(2-5)])
  qed
qed

lemma averages_unsupported:
  assumes "context_params event = Inr (JDict ps)"
      and "map_of ps ''format'' = Some f" "truthy f" "f \<noteq> JStr ''csv''" "f \<noteq> JStr ''json''"
  shows "case averages key env path event of Inl e \<Rightarrow> True | Inr r \<Rightarrow> is_error_response r"
proof (cases "2 < length path")
  case False
  then show ?thesis by (simp add: averages_def no_reach_id_error)
next
  case True
  show ?thesis
  proof (cases "py_int env (path ! 2)")
    case None
    with True assms(1) show ?thesis by (simp add: averages_def bad_reach_id_error)
  next
    case (Some rid)
    show ?thesis
      unfolding averages_run [OF True Some assms(1)]
      by (cases "retrospective_df env rid (JDict [])")
         (simp_all add: format_unsupported [OF assms(2-5)])
  qed
qed

lemma returnperiods_unsupported:
  assumes "context_params event = Inr (JDict ps)"
      and "map_of ps ''format'' = Some f" "truthy f" "f \<noteq> JStr ''csv''" "f \<noteq> JStr ''json''"
  shows "case returnperiods env path event of Inl e \<Rightarrow> True | Inr r \<Rightarrow> is_error_response r"
proof (cases "2 < length path")
  case False
  then show ?thesis by (simp add: handlers_short no_reach_id_error)
next
  case True
  show ?thesis
  proof (cases "py_int env (path ! 2)")
    case None
    with True assms(1) show ?thesis by (simp add: returnperiods_def bad_reach_id_error)
  next
    case (Some rid)
    show ?thesis
      unfolding returnperiods_run [OF True Some assms(1)]
      by (cases "open_returnperiods env rid")
         (simp_all add: format_unsupported [OF assms(2-5)])
  qed
qed

lemma error_not_200: "is_error_response r \<Longrightarrow> status_code r \<noteq> Some 200"
  by (induction r rule: is_error_response.induct) auto

text \<open>
  Claim C5, as the code has it. For every request to one of the four endpoints whose
  \<open>format\<close> parameter, at the place where the endpoint reads it, is supplied, is truthy
  (for a text: not empty) and is neither \<open>csv\<close> nor \<open>json\<close>, the response is an error
  envelope, never a 200 and never CSV output.
\<close>

theorem unsupported_format_error:
  assumes path: "request_path event = Inr (''v2'' # ep # rest)"
      and ep: "ep \<in> set endpoints"
      and params: "query_params ep event = Some (JDict ps)"
      and fmt: "map_of ps ''format'' = Some f" "truthy f" "f \<noteq> JStr ''csv''" "f \<noteq> JStr ''json''"
  shows "is_error_response (lambda_handler env event) \<and> status_code (lambda_handler env event) \<noteq> Some 200"
proof -
  let ?p = "''v2'' # ep # rest"
  have err: "is_error_response (lambda_handler env event)"
  proof (cases "ep = ''retrospective''")
    case True
    with params have "map_of event ''queryStringParameters'' = Some (JDict ps)"
      by (simp add: query_params_def)
    from retrospective_unsupported [OF this fmt, of env ?p] True show ?thesis
      by (intro handler_fails [where res = "retrospective env ?p event"])
         (simp_all add: dispatch_v2 [OF path])
  next
    case False
    from query_params_nested [OF params False] have cp: "context_params event = Inr (JDict ps)" .
    from ep False consider "ep = ''daily_averages''" | "ep = ''monthly_averages''" | "ep = ''returnperiods''"
      by (auto simp: endpoints_def)
    then show ?thesis
    proof cases
      case 1
      with averages_unsupported [OF cp fmt, of strftime_md env ?p] show ?thesis
        by (intro handler_fails [where res = "daily_averages env ?p event"])
           (simp_all add: dispatch_v2 [OF path] daily_averages_averages)
    next
      case 2
      with averages_unsupported [OF cp fmt, of strftime_m env ?p] show ?thesis
        by (intro handler_fails [where res = "monthly_averages env ?p event"])
           (simp_all add: dispatch_v2 [OF path] monthly_averages_averages)
    next
      case 3
      with returnperiods_unsupported [OF cp fmt, of env ?p] show ?thesis
        by (intro handler_fails [where res = "returnperiods env ?p event"])
           (simp_all add: dispatch_v2 [OF path])
    qed
  qed
  with error_not_200 show ?thesis by blast
qed

theorem unsupported_format_error_witness:
  "request_path (event_of ''/v2/daily_averages/12345678'' [] [(''format'', JStr ''xml'')])
      = Inr [''v2'', ''daily_averages'', ''12345678'']
   \<and> ''daily_averages'' \<in> set endpoints
   \<and> query_params ''daily_averages'' (event_of ''/v2/daily_averages/12345678'' [] [(''format'', JStr ''xml'')])
      = Some (JDict [(''format'', JStr ''xml'')])
   \<and> truthy (JStr ''xml'')
   \<and> is_error_response
        (lambda_handler demo_env (event_of ''/v2/daily_averages/12345678'' [] [(''format'', JStr ''xml'')]))"
proof -
  let ?ev = "event_of ''/v2/daily_averages/12345678'' [] [(''format'', JStr ''xml'')]"
  have h1: "request_path ?ev = Inr (''v2'' # ''daily_averages'' # [''12345678''])"
    by (simp add: request_path_def event_of_def dict_item_def)
  have h2: "''daily_averages'' \<in> set endpoints" by (simp add: endpoints_def)
  have h3: "query_params ''daily_averages'' ?ev = Some (JDict [(''format'', JStr ''xml'')])"
    by (simp add: query_params_def event_of_def)
  have h4: "map_of [(''format'', JStr ''xml'')] ''format'' = Some (JStr ''xml'')" by simp
  have h5: "truthy (JStr ''xml'')" "JStr ''xml'' \<noteq> JStr ''csv''" "JStr ''xml'' \<noteq> JStr ''json''"
    by simp_all
  from unsupported_format_error [OF h1 h2 h3 h4 h5, of demo_env] h1 h2 h3 h5 show ?thesis by simp
qed

text \<open>
  The claim as first stated also covers \<open>format=\<close> with an empty value; the handlers
  test \<open>params.get('format', False)\<close> for truth, and the empty text takes the CSV
  branch.
\<close>

theorem empty_format_counterexample:
  "query_params ''retrospective'' (event_of ''/v2/retrospective/12345678'' [(''format'', JStr [])] [])
      = Some (JDict [(''format'', JStr [])])
   \<and> lambda_handler demo_env (event_of ''/v2/retrospective/12345678'' [(''format'', JStr [])] [])
      = ok_response (concat (map (\<lambda>l. l @ [CHR 0x0A]) [''12345678'', ''10'', ''20'', ''30'', ''40'', ''70'']))
   \<and> status_code (lambda_handler demo_env (event_of ''/v2/retrospective/12345678'' [(''format'', JStr [])] []))
      = Some 200"
  by (simp add: handler_defs demo_defs query_params_def)

section \<open>The CSV body\<close>

lemma digit_char_code: "of_char (digit_char n) \<ge> (48::nat)"
proof -
  have "digit_char n \<in> set ''0123456789abcdef''"
    unfolding digit_char_def by (rule nth_mem) simp
  then show ?thesis by auto
qed

lemma show_nat_chars: "c \<in> set (show_nat n) \<Longrightarrow> of_char c \<ge> (48::nat)"
proof (induction n rule: show_nat.induct)
  case (1 n)
  then show ?case
    by (subst (asm) (2) show_nat.simps) (auto simp: digit_char_code split: if_splits)
qed

lemma show_int_chars: "c \<in> set (show_int i) \<Longrightarrow> of_char c \<ge> (45::nat)"
  using show_nat_chars [of c] by (fastforce simp: show_int_def split: if_splits)

lemma split_on_none: "c \<notin> set s \<Longrightarrow> split_on c s = [s]"
  by (induction s) auto

lemma header_fields_csv:
  "header_fields (show_int i @ CHR 0x0A # rest) = [show_int i]"
proof -
  have nl: "CHR 0x0A \<notin> set (show_int i)" using show_int_chars [of "CHR 0x0A" i] by auto
  have comma: "CHR '','' \<notin> set (show_int i)" using show_int_chars [of "CHR '',''" i] by auto
  have "takeWhile (\<lambda>c. c \<noteq> CHR 0x0A) (show_int i @ CHR 0x0A # rest) = show_int i"
    using nl by (subst takeWhile_append2) auto
  then show ?thesis by (simp add: header_fields_def split_on_none [OF comma])
qed

lemma retrospective_plain_csv:
  assumes path: "request_path event = Inr (''v2'' # ''retrospective'' # seg # rest)"
      and none: "\<not> truthy (dict_get event ''queryStringParameters'')"
      and reach: "py_int env seg = Some rid"
      and store: "open_retrospective env rid = Inr series"
      and pivoted: "pivot rid series = Inr df"
  shows "lambda_handler env event = ok_response (to_csv (csv_value env) df)"
proof -
  let ?p = "''v2'' # ''retrospective'' # seg # rest"
  have params: "params_or_empty (dict_get event ''queryStringParameters'') = JDict []"
    using none by (simp add: params_or_empty_def)
  have "retrospective env ?p event = Inr (ok_response (to_csv (csv_value env) df))"
    using reach
    by (subst retrospective_run [where rid = rid, OF _ _ params])
       (simp_all add: retrospective_df_plain [OF store pivoted] format_absent dict_get_def)
  then show ?thesis by (simp add: lambda_handler_def dispatch_v2 [OF path])
qed

text \<open>
  Two stores outside the statement that follows. With no row for the reach the pivoted
  table has no column, and the CSV text is one empty line. With a time that occurs
  twice the pivot raises, and the request is answered with the error envelope.
\<close>

lemma empty_store_csv:
  assumes "request_path event = Inr (''v2'' # ''retrospective'' # seg # rest)"
      and "\<not> truthy (dict_get event ''queryStringParameters'')"
      and "py_int env seg = Some rid"
      and "open_retrospective env rid = Inr []"
  shows "lambda_handler env event = ok_response [CHR 0x0A]"
  using retrospective_plain_csv [OF assms, of "\<lparr>columns = [], rows = []\<rparr>"]
  by (simp add: pivot_def to_csv_def)

lemma duplicate_times_error:
  assumes path: "request_path event = Inr (''v2'' # ''retrospective'' # seg # rest)"
      and reach: "py_int env seg = Some rid"
      and store: "open_retrospective env rid = Inr series"
      and dup: "\<not> distinct (map fst series)"
  shows "lambda_handler env event
           = error_response 400 ''Bad request: Index contains duplicate entries, cannot reshape''"
proof -
  have "retrospective env (''v2'' # ''retrospective'' # seg # rest) event
          = Inl (Exn ValueError ''Index contains duplicate entries, cannot reshape'')"
    using reach by (simp add: retrospective_def retrospective_df_def store pivot_duplicate [OF dup])
  then show ?thesis by (simp add: lambda_handler_def dispatch_v2 [OF path])
qed

text \<open>
  Claim C3, as the code has it. For every request \<open>/v2/retrospective/<reach_id>\<close>
  with no query parameters, where the reach id is an integer present in the store
  with at least one row and no time twice, the response is a 200 whose body is the
  JSON text of a CSV with a header row that holds one field, the reach id (the label
  of the flow column; the time index is not written, as \<open>index=False\<close> asks), followed
  by one row per available timestamp, in the order of time, that holds the flow
  value.
\<close>

theorem retrospective_csv_body:
  assumes path: "request_path event = Inr (''v2'' # ''retrospective'' # seg # rest)"
      and none: "\<not> truthy (dict_get event ''queryStringParameters'')"
      and reach: "py_int env seg = Some rid"
      and store: "open_retrospective env rid = Inr series"
      and rows: "series \<noteq> []"
      and times: "distinct (map fst series)"
  shows "lambda_handler env event
           = ok_response (concat (map (\<lambda>l. l @ [CHR 0x0A])
                                      (show_int rid # map (\<lambda>r. csv_value env (snd r)) (sort_key fst series))))
         \<and> header_fields (concat (map (\<lambda>l. l @ [CHR 0x0A])
                                      (show_int rid # map (\<lambda>r. csv_value env (snd r)) (sort_key fst series))))
           = [show_int rid]"
proof -
  have "pivot rid series
          = Inr \<lparr>columns = [rid], rows = map (\<lambda>r. (fst r, [snd r])) (sort_key fst series)\<rparr>"
    using rows by (simp add: pivot_distinct [OF times])
  from retrospective_plain_csv [OF path none reach store this]
  show ?thesis by (simp add: to_csv_def header_fields_csv comp_def)
qed

theorem retrospective_csv_body_witness:
  "request_path (event_of ''/v2/retrospective/12345678'' [] []) = Inr [''v2'', ''retrospective'', ''12345678'']
   \<and> \<not> truthy (dict_get (event_of ''/v2/retrospective/12345678'' [] []) ''queryStringParameters'')
   \<and> py_int demo_env ''12345678'' = Some 12345678
   \<and> open_retrospective demo_env 12345678 = Inr demo_series
   \<and> demo_series \<noteq> [] \<and> distinct (map fst demo_series)
   \<and> lambda_handler demo_env (event_of ''/v2/retrospective/12345678'' [] [])
      = ok_response (concat (map (\<lambda>l. l @ [CHR 0x0A]) [''12345678'', ''10'', ''20'', ''30'', ''40'', ''70'']))"
proof -
  let ?ev = "event_of ''/v2/retrospective/12345678'' [] []"
  have h1: "request_path ?ev = Inr (''v2'' # ''retrospective'' # ''12345678'' # [])"
    by (simp add: request_path_def event_of_def dict_item_def)
  have h2: "\<not> truthy (dict_get ?ev ''queryStringParameters'')"
    by (simp add: event_of_def dict_get_def)
  have h3: "py_int demo_env ''12345678'' = Some 12345678"
    by (simp add: demo_env_def digits_int_def)
  have h4: "open_retrospective demo_env 12345678 = Inr demo_series"
    by (simp add: demo_env_def)
  have h5: "demo_series \<noteq> []" and h6: "distinct (map fst demo_series)"
    by (simp_all add: demo_series_def day_def ns_per_day_def)
  from retrospective_csv_body [OF h1 h2 h3 h4 h5 h6] h1 h2 h3 h4 h5 h6 show ?thesis
    by (simp add: demo_defs)
qed

theorem csv_header_counterexample:
  "lambda_handler demo_env (event_of ''/v2/retrospective/12345678'' [] [])
     = ok_response (concat (map (\<lambda>l. l @ [CHR 0x0A]) [''12345678'', ''10'', ''20'', ''30'', ''40'', ''70'']))
   \<and> header_fields (concat (map (\<lambda>l. l @ [CHR 0x0A]) [''12345678'', ''10'', ''20'', ''30'', ''40'', ''70'']))
     = [''12345678'']
   \<and> ''time'' \<notin> set (header_fields
         (concat (map (\<lambda>l. l @ [CHR 0x0A]) [''12345678'', ''10'', ''20'', ''30'', ''40'', ''70''])))"
  by (simp add: handler_defs demo_defs header_fields_def)


section \<open>The JSON format\<close>

lemma demo_keys_md:
  "strftime_md (day 18261) = ''1231''" "strftime_md (day 18262) = ''0101''"
  "strftime_md (day 18263) = ''0102''" "strftime_md (day 18264) = ''0103''"
  "strftime_md (day 18628) = ''0101''"
  by (simp_all add: strftime_md_def pad2_def month_of_def day_of_def month_index_def
        day_of_year_def day_of_era_def day_def ns_per_day_def Let_def show_nat.simps digit_char_def)

lemma demo_keys_m:
  "strftime_m (day 18261) = ''12''" "strftime_m (day 18262) = ''01''"
  "strftime_m (day 18263) = ''01''" "strftime_m (day 18264) = ''01''"
  "strftime_m (day 18628) = ''01''"
  by (simp_all add: strftime_m_def pad2_def month_of_def month_index_def
        day_of_year_def day_of_era_def day_def ns_per_day_def Let_def show_nat.simps digit_char_def)

lemma demo_daily:
  "groupby_mean (mean demo_env) strftime_md
     \<lparr>columns = [12345678],
      rows = [(day 18261, [10]), (day 18262, [20]), (day 18263, [30]), (day 18264, [40]),
              (day 18628, [70])]\<rparr>
     = \<lparr>columns = [12345678],
        rows = [(''0101'', [45]), (''0102'', [30]), (''0103'', [40]), (''1231'', [10])]\<rparr>"
  by (simp add: groupby_mean_def demo_keys_md demo_env_def)

lemma demo_monthly:
  "groupby_mean (mean demo_env) strftime_m
     \<lparr>columns = [12345678],
      rows = [(day 18261, [10]), (day 18262, [20]), (day 18263, [30]), (day 18264, [40]),
              (day 18628, [70])]\<rparr>
     = \<lparr>columns = [12345678], rows = [(''01'', [40]), (''12'', [10])]\<rparr>"
  by (simp add: groupby_mean_def demo_keys_m demo_env_def)

lemma demo_retrospective_df:
  "retrospective_df demo_env 12345678 (JDict [])
     = Inr \<lparr>columns = [12345678],
            rows = [(day 18261, [10]), (day 18262, [20]), (day 18263, [30]), (day 18264, [40]),
                    (day 18628, [70])]\<rparr>"
  by (rule retrospective_df_plain [OF _ demo_pivot]) (simp add: demo_env_def)

lemmas json_text_defs = json_dumps_str_def json_escape_char_def

lemma demo_daily_json:
  "daily_averages demo_env [''v2'', ''daily_averages'', ''12345678'']
      (event_of ''/v2/daily_averages/12345678'' [] [(''format'', JStr ''json'')])
     = Inr (ok_response (''{'' @ [CHR 0x22] @ ''12345678'' @ [CHR 0x22] @ '':{''
                      @ [CHR 0x22] @ ''0101'' @ [CHR 0x22] @ '':45,''
                      @ [CHR 0x22] @ ''0102'' @ [CHR 0x22] @ '':30,''
                      @ [CHR 0x22] @ ''0103'' @ [CHR 0x22] @ '':40,''
                      @ [CHR 0x22] @ ''1231'' @ [CHR 0x22] @ '':10}}''))"
proof -
  let ?js = "[(''format'', JStr ''json'')]"
  let ?p = "[''v2'', ''daily_averages'', ''12345678'']"
  let ?e = "event_of ''/v2/daily_averages/12345678'' [] ?js"
  have cp: "context_params ?e = Inr (JDict ?js)"
    by (simp add: context_params_def event_of_def dict_item_def dict_get_def)
  have r: "py_int demo_env (?p ! 2) = Some 12345678"
    by (simp add: demo_env_def digits_int_def)
  show ?thesis
    unfolding daily_averages_averages
    apply (subst averages_run [OF _ r cp])
     apply simp
    apply (simp add: demo_retrospective_df demo_daily format_json)
    apply (simp add: demo_env_def to_json_noindex_def json_columns_def json_text_defs
             show_int_def show_nat.simps digit_char_def)
    done
qed

lemma demo_monthly_csv:
  "monthly_averages demo_env [''v2'', ''monthly_averages'', ''12345678'']
      (event_of ''/v2/monthly_averages/12345678'' [] [])
     = Inr (ok_response (concat (map (\<lambda>l. l @ [CHR 0x0A]) [''12345678'', ''40'', ''10''])))"
proof -
  let ?p = "[''v2'', ''monthly_averages'', ''12345678'']"
  let ?e = "event_of ''/v2/monthly_averages/12345678'' [] []"
  have cp: "context_params ?e = Inr (JDict [])"
    by (simp add: context_params_def event_of_def dict_item_def dict_get_def)
  have r: "py_int demo_env (?p ! 2) = Some 12345678"
    by (simp add: demo_env_def digits_int_def)
  show ?thesis
    unfolding monthly_averages_averages
    apply (subst averages_run [OF _ r cp])
     apply simp
    apply (simp add: demo_retrospective_df demo_monthly format_absent dict_get_def)
    apply (simp add: demo_env_def to_csv_def show_int_def show_nat.simps digit_char_def)
    done
qed

text \<open>
  Claim C2 says that \<open>format=json\<close> gives a 200 whose body is the JSON form of the
  table with no row index. The handlers ask for that with \<open>df.to_json(index=False)\<close>,
  but give no orient, and with the default orient the argument cannot have its
  effect: a pandas that ignores it writes the index (the times in milliseconds, or the
  group keys) as member names, and a pandas that refuses it raises, which
  \<open>lambda_handler\<close> answers with the error envelope. The evaluation at the request of
  the claim, \<open>/v2/retrospective/12345678\<close> with \<open>format=json\<close>, \<open>start_date=2020-01-01\<close>
  and \<open>end_date=2020-01-02\<close>, for both, and at \<open>/v2/daily_averages/12345678\<close>:
\<close>

theorem json_index_false_missed:
  "lambda_handler demo_env
      (event_of ''/v2/retrospective/12345678''
         [(''format'', JStr ''json''), (''start_date'', JStr ''2020-01-01''),
          (''end_date'', JStr ''2020-01-02'')] [])
     = ok_response (''{'' @ [CHR 0x22] @ ''12345678'' @ [CHR 0x22] @ '':{''
                      @ [CHR 0x22] @ ''1577836800000'' @ [CHR 0x22] @ '':20,''
                      @ [CHR 0x22] @ ''1577923200000'' @ [CHR 0x22] @ '':30}}'')
   \<and> lambda_handler demo_env_strict
      (event_of ''/v2/retrospective/12345678''
         [(''format'', JStr ''json''), (''start_date'', JStr ''2020-01-01''),
          (''end_date'', JStr ''2020-01-02'')] [])
     = error_response 400
         (''Bad request: '' @ [CHR 0x27] @ ''index=False'' @ [CHR 0x27] @ '' is only valid when ''
            @ [CHR 0x27] @ ''orient'' @ [CHR 0x27] @ '' is '' @ [CHR 0x27] @ ''split'' @ [CHR 0x27]
            @ '' or '' @ [CHR 0x27] @ ''table'' @ [CHR 0x27])
   \<and> lambda_handler demo_env
      (event_of ''/v2/daily_averages/12345678'' [] [(''format'', JStr ''json'')])
     = ok_response (''{'' @ [CHR 0x22] @ ''12345678'' @ [CHR 0x22] @ '':{''
                      @ [CHR 0x22] @ ''0101'' @ [CHR 0x22] @ '':45,''
                      @ [CHR 0x22] @ ''0102'' @ [CHR 0x22] @ '':30,''
                      @ [CHR 0x22] @ ''0103'' @ [CHR 0x22] @ '':40,''
                      @ [CHR 0x22] @ ''1231'' @ [CHR 0x22] @ '':10}}'')"
proof (intro conjI)
  let ?ps = "[(''format'', JStr ''json''), (''start_date'', JStr ''2020-01-01''),
              (''end_date'', JStr ''2020-01-02'')]"
  show "lambda_handler demo_env (event_of ''/v2/retrospective/12345678'' ?ps [])
     = ok_response (''{'' @ [CHR 0x22] @ ''12345678'' @ [CHR 0x22] @ '':{''
                      @ [CHR 0x22] @ ''1577836800000'' @ [CHR 0x22] @ '':20,''
                      @ [CHR 0x22] @ ''1577923200000'' @ [CHR 0x22] @ '':30}}'')"
    by (simp add: handler_defs demo_defs json_text_defs)
  show "lambda_handler demo_env_strict (event_of ''/v2/retrospective/12345678'' ?ps [])
     = error_response 400
         (''Bad request: '' @ [CHR 0x27] @ ''index=False'' @ [CHR 0x27] @ '' is only valid when ''
            @ [CHR 0x27] @ ''orient'' @ [CHR 0x27] @ '' is '' @ [CHR 0x27] @ ''split'' @ [CHR 0x27]
            @ '' or '' @ [CHR 0x27] @ ''table'' @ [CHR 0x27])"
    by (simp add: handler_defs demo_defs json_text_defs)
  let ?e = "event_of ''/v2/daily_averages/12345678'' [] [(''format'', JStr ''json'')]"
  have path: "request_path ?e = Inr (''v2'' # ''daily_averages'' # [''12345678''])"
    by (simp add: request_path_def event_of_def dict_item_def)
  from demo_daily_json
  show "lambda_handler demo_env ?e
     = ok_response (''{'' @ [CHR 0x22] @ ''12345678'' @ [CHR 0x22] @ '':{''
                      @ [CHR 0x22] @ ''0101'' @ [CHR 0x22] @ '':45,''
                      @ [CHR 0x22] @ ''0102'' @ [CHR 0x22] @ '':30,''
                      @ [CHR 0x22] @ ''0103'' @ [CHR 0x22] @ '':40,''
                      @ [CHR 0x22] @ ''1231'' @ [CHR 0x22] @ '':10}}'')"
    by (simp add: lambda_handler_def dispatch_v2 [OF path])
qed

section \<open>Where the query parameters are read\<close>

lemma same_exceptD:
  assumes "same_except d1 d2 k" and "k' \<noteq> k"
  shows "map_of d1 k' = map_of d2 k'"
proof (cases "k' \<in> set (map fst d1 @ map fst d2)")
  case True
  with assms show ?thesis by (auto simp: same_except_def)
next
  case False
  then have "map_of d1 k' = None" "map_of d2 k' = None"
    by (simp_all add: map_of_eq_None_iff)
  then show ?thesis by simp
qed

lemma retrospective_site:
  "map_of e1 ''queryStringParameters'' = map_of e2 ''queryStringParameters'' \<Longrightarrow>
   retrospective env path e1 = retrospective env path e2"
  by (simp add: retrospective_def dict_get_def)

lemma context_site:
  "map_of e1 ''requestContext'' = map_of e2 ''requestContext'' \<Longrightarrow>
   context_params e1 = context_params e2"
  by (simp add: context_params_def dict_item_def)

lemma nested_sites:
  assumes "map_of e1 ''requestContext'' = map_of e2 ''requestContext''"
  shows "averages key env path e1 = averages key env path e2"
    and "returnperiods env path e1 = returnperiods env path e2"
  using context_site [OF assms] by (simp_all add: averages_def returnperiods_def)

text \<open>
  Claim C10. \<open>retrospective\<close> reads the query parameters only from the top-level field
  \<open>queryStringParameters\<close> of the event; \<open>daily_averages\<close>, \<open>monthly_averages\<close> and
  \<open>returnperiods\<close> read them only from \<open>requestContext.queryStringParameters\<close>. Two
  events that differ only in the parameters at the place an endpoint does not read get
  the same response from that endpoint.
\<close>

theorem query_parameter_sites:
  "(differ_only_nested e1 e2 \<longrightarrow> retrospective env path e1 = retrospective env path e2)
   \<and> (differ_only_outer e1 e2 \<longrightarrow>
        daily_averages env path e1 = daily_averages env path e2
        \<and> monthly_averages env path e1 = monthly_averages env path e2
        \<and> returnperiods env path e1 = returnperiods env path e2)"
proof (intro conjI impI)
  assume "differ_only_nested e1 e2"
  then have "same_except e1 e2 ''requestContext''" by (simp add: differ_only_nested_def)
  then have "map_of e1 ''queryStringParameters'' = map_of e2 ''queryStringParameters''"
    by (rule same_exceptD) simp
  then show "retrospective env path e1 = retrospective env path e2" by (rule retrospective_site)
next
  assume "differ_only_outer e1 e2"
  then have rc: "map_of e1 ''requestContext'' = map_of e2 ''requestContext''"
    unfolding differ_only_outer_def by (rule same_exceptD) simp
  show "daily_averages env path e1 = daily_averages env path e2"
    unfolding daily_averages_averages by (rule nested_sites(1) [OF rc])
  show "monthly_averages env path e1 = monthly_averages env path e2"
    unfolding monthly_averages_averages by (rule nested_sites(1) [OF rc])
  show "returnperiods env path e1 = returnperiods env path e2"
    by (rule nested_sites(2) [OF rc])
qed

theorem query_parameter_sites_witness:
  "differ_only_nested (event_of ''/v2/retrospective/12345678'' [] [])
                      (event_of ''/v2/retrospective/12345678'' [] [(''format'', JStr ''xml'')])
   \<and> retrospective demo_env [''v2'', ''retrospective'', ''12345678'']
        (event_of ''/v2/retrospective/12345678'' [] [])
     = retrospective demo_env [''v2'', ''retrospective'', ''12345678'']
        (event_of ''/v2/retrospective/12345678'' [] [(''format'', JStr ''xml'')])
   \<and> differ_only_outer (event_of ''/v2/daily_averages/12345678'' [] [])
                       (event_of ''/v2/daily_averages/12345678'' [(''format'', JStr ''xml'')] [])
   \<and> daily_averages demo_env [''v2'', ''daily_averages'', ''12345678'']
        (event_of ''/v2/daily_averages/12345678'' [] [])
     = daily_averages demo_env [''v2'', ''daily_averages'', ''12345678'']
        (event_of ''/v2/daily_averages/12345678'' [(''format'', JStr ''xml'')] [])"
proof -
  have n: "differ_only_nested (event_of ''/v2/retrospective/12345678'' [] [])
             (event_of ''/v2/retrospective/12345678'' [] [(''format'', JStr ''xml'')])"
    by (simp add: differ_only_nested_def same_except_def event_of_def)
  have out: "differ_only_outer (event_of ''/v2/daily_averages/12345678'' [] [])
             (event_of ''/v2/daily_averages/12345678'' [(''format'', JStr ''xml'')] [])"
    by (simp add: differ_only_outer_def same_except_def event_of_def)
  from query_parameter_sites
         [of "event_of ''/v2/retrospective/12345678'' [] []"
             "event_of ''/v2/retrospective/12345678'' [] [(''format'', JStr ''xml'')]"
             demo_env "[''v2'', ''retrospective'', ''12345678'']"] n
  have a: "retrospective demo_env [''v2'', ''retrospective'', ''12345678'']
             (event_of ''/v2/retrospective/12345678'' [] [])
           = retrospective demo_env [''v2'', ''retrospective'', ''12345678'']
             (event_of ''/v2/retrospective/12345678'' [] [(''format'', JStr ''xml'')])"
    by simp
  from query_parameter_sites
         [of "event_of ''/v2/daily_averages/12345678'' [] []"
             "event_of ''/v2/daily_averages/12345678'' [(''format'', JStr ''xml'')] []"
             demo_env "[''v2'', ''daily_averages'', ''12345678'']"] out
  have b: "daily_averages demo_env [''v2'', ''daily_averages'', ''12345678'']
             (event_of ''/v2/daily_averages/12345678'' [] [])
           = daily_averages demo_env [''v2'', ''daily_averages'', ''12345678'']
             (event_of ''/v2/daily_averages/12345678'' [(''format'', JStr ''xml'')] [])"
    by simp
  from n out a b show ?thesis by simp
qed

section \<open>The success envelope\<close>

text \<open>\<open>json.dumps\<close> of a string can be read back, and is never the string itself.\<close>

lemma hex_val_digit: "k < 16 \<Longrightarrow> hex_val (digit_char k) = Some k"
proof -
  have "\<forall>k \<in> set [0..<16]. hex_val (digit_char k) = Some k"
    by (simp add: upt_rec hex_val_def digit_char_def)
  then show "k < 16 \<Longrightarrow> hex_val (digit_char k) = Some k" by simp
qed

lemma unescape_hex:
  "json_unescape ([CHR 0x5C, CHR ''u'', CHR ''0'', CHR ''0''] @ hex2 (of_char c) @ rest)
     = map_option ((#) c) (json_unescape rest)"
proof -
  let ?n = "of_char c :: nat"
  have lt: "?n div 16 < 16"
    using nat_of_char_less_256 [of c] by arith
  then have a: "(?n div 16) mod 16 = ?n div 16" by simp
  have b: "hex_val (digit_char (?n div 16)) = Some (?n div 16)"
    using lt by (rule hex_val_digit)
  have c: "hex_val (digit_char (?n mod 16)) = Some (?n mod 16)"
    by (intro hex_val_digit) simp
  have d: "char_of (16 * (?n div 16) + ?n mod 16) = c" by simp
  show ?thesis by (simp add: hex2_def a b c d)
qed

lemma unescape_escape:
  "json_unescape (json_escape_char c @ rest) = map_option ((#) c) (json_unescape rest)"
proof -
  consider "c = CHR 0x22" | "c = CHR 0x5C" | "c = CHR 0x0A" | "c = CHR 0x0D" | "c = CHR 0x09"
    | "c = CHR 0x08" | "c = CHR 0x0C"
    | "c \<noteq> CHR 0x22" "c \<noteq> CHR 0x5C" "c \<noteq> CHR 0x0A" "c \<noteq> CHR 0x0D" "c \<noteq> CHR 0x09"
      "c \<noteq> CHR 0x08" "c \<noteq> CHR 0x0C" "32 \<le> (of_char c :: nat) \<and> (of_char c :: nat) < 127"
    | "c \<noteq> CHR 0x22" "c \<noteq> CHR 0x5C" "c \<noteq> CHR 0x0A" "c \<noteq> CHR 0x0D" "c \<noteq> CHR 0x09"
      "c \<noteq> CHR 0x08" "c \<noteq> CHR 0x0C" "\<not> (32 \<le> (of_char c :: nat) \<and> (of_char c :: nat) < 127)"
    by blast
  then show ?thesis
  proof cases
    case 8
    then show ?thesis by (simp add: json_escape_char_def)
  next
    case 9
    then have "json_escape_char c = [CHR 0x5C, CHR ''u'', CHR ''0'', CHR ''0''] @ hex2 (of_char c)"
      by (simp add: json_escape_char_def)
    then show ?thesis using unescape_hex [of c rest] by simp
  qed (simp_all add: json_escape_char_def unescape_simple_def)
qed

lemma unescape_escaped: "json_unescape (concat (map json_escape_char s)) = Some s"
  by (induction s) (simp_all add: unescape_escape)

lemma json_loads_dumps: "json_loads_str (json_dumps_str s) = Some s"
  by (simp add: json_loads_str_def json_dumps_str_def unescape_escaped)

lemma escape_nonempty: "json_escape_char c \<noteq> []"
  by (simp add: json_escape_char_def hex2_def)

lemma length_escaped: "length s \<le> length (concat (map json_escape_char s))"
proof (induction s)
  case (Cons c s)
  have "1 \<le> length (json_escape_char c)"
    using escape_nonempty [of c] by (cases "json_escape_char c") simp_all
  with Cons show ?case by simp
qed simp

lemma json_dumps_not_raw: "json_dumps_str s \<noteq> s"
proof
  assume "json_dumps_str s = s"
  then have "length (json_dumps_str s) = length s" by simp
  with length_escaped [of s] show False by (simp add: json_dumps_str_def)
qed

lemma ok_response_shape:
  "ok_response text = JDict [(''statusCode'', JInt 200), (''body'', JStr (json_dumps (JStr text)))]"
  by (simp add: ok_response_def)

lemma status_code_fixed [simp]:
  "status_code no_reach_id = None" "status_code (bad_reach_id seg) = None"
  by (simp_all add: no_reach_id_def bad_reach_id_def)

lemma formatted_success:
  assumes "bindE (format_output params csv js) (\<lambda>output. Inr (ok_response output)) = Inr r"
  shows "\<exists>text. (text = csv \<or> js = Inr text) \<and> r = ok_response text"
  using assms by (auto simp: bindE_Inr dest: format_output_Inr)

lemma retrospective_success:
  assumes res: "retrospective env path event = Inr r" and ok: "status_code r \<noteq> None"
  shows "\<exists>rid df text.
           py_int env (path ! 2) = Some rid
           \<and> retrospective_df env rid (params_or_empty (dict_get event ''queryStringParameters'')) = Inr df
           \<and> (text = to_csv (csv_value env) df \<or> to_json_noindex (index_false_refused env)
                  (json_columns epoch_ms (json_value env) df) = Inr text)
           \<and> r = ok_response text"
proof (cases "2 < length path")
  case False
  with res ok show ?thesis by (auto simp: handlers_short)
next
  case True
  show ?thesis
  proof (cases "py_int env (path ! 2)")
    case None
    with True res ok show ?thesis by (auto simp: retrospective_def)
  next
    case (Some rid)
    from res obtain df where df: "retrospective_df env rid
        (params_or_empty (dict_get event ''queryStringParameters'')) = Inr df"
      and out: "bindE (format_output (params_or_empty (dict_get event ''queryStringParameters''))
                  (to_csv (csv_value env) df)
                  (to_json_noindex (index_false_refused env) (json_columns epoch_ms (json_value env) df)))
                  (\<lambda>output. Inr (ok_response output)) = Inr r"
      unfolding retrospective_run [OF True Some refl] by (auto simp: bindE_Inr)
    from formatted_success [OF out] Some df show ?thesis by blast
  qed
qed

lemma averages_success:
  assumes res: "averages key env path event = Inr r" and ok: "status_code r \<noteq> None"
  shows "\<exists>rid df0 text.
           py_int env (path ! 2) = Some rid
           \<and> retrospective_df env rid (JDict []) = Inr df0
           \<and> (text = to_csv (csv_value env) (groupby_mean (mean env) key df0)
                \<or> to_json_noindex (index_false_refused env)
                  (json_columns (\<lambda>k. k) (json_value env) (groupby_mean (mean env) key df0)) = Inr text)
           \<and> r = ok_response text"
proof (cases "2 < length path")
  case False
  with res ok show ?thesis by (auto simp: averages_def)
next
  case True
  from res True obtain params where cp: "context_params event = Inr params"
    by (cases "context_params event") (auto simp: averages_def)
  show ?thesis
  proof (cases "py_int env (path ! 2)")
    case None
    with True res ok cp show ?thesis by (auto simp: averages_def)
  next
    case (Some rid)
    from res obtain df0 where df: "retrospective_df env rid (JDict []) = Inr df0"
      and out: "bindE (format_output params
                  (to_csv (csv_value env) (groupby_mean (mean env) key df0))
                  (to_json_noindex (index_false_refused env)
                     (json_columns (\<lambda>k. k) (json_value env) (groupby_mean (mean env) key df0))))
                  (\<lambda>output. Inr (ok_response output)) = Inr r"
      unfolding averages_run [OF True Some cp] by (auto simp: bindE_Inr)
    from formatted_success [OF out] Some df show ?thesis by blast
  qed
qed

lemma returnperiods_success:
  assumes res: "returnperiods env path event = Inr r" and ok: "status_code r \<noteq> None"
  shows "\<exists>rid table text.
           py_int env (path ! 2) = Some rid
           \<and> open_returnperiods env rid = Inr table
           \<and> (text = rp_to_csv env table \<or> to_json_noindex (index_false_refused env) (rp_to_json env table) = Inr text)
           \<and> r = ok_response text"
proof (cases "2 < length path")
  case False
  with res ok show ?thesis by (auto simp: handlers_short)
next
  case True
  from res True obtain params where cp: "context_params event = Inr params"
    by (cases "context_params event") (auto simp: returnperiods_def)
  show ?thesis
  proof (cases "py_int env (path ! 2)")
    case None
    with True res ok cp show ?thesis by (auto simp: returnperiods_def)
  next
    case (Some rid)
    from res obtain table where df: "open_returnperiods env rid = Inr table"
      and out: "bindE (format_output params (rp_to_csv env table)
                  (to_json_noindex (index_false_refused env) (rp_to_json env table)))
                  (\<lambda>output. Inr (ok_response output)) = Inr r"
      unfolding returnperiods_run [OF True Some cp] by (auto simp: bindE_Inr)
    from formatted_success [OF out] Some df show ?thesis by blast
  qed
qed

lemma success_encoding:
  "r = ok_response text \<Longrightarrow>
   r = JDict [(''statusCode'', JInt 200), (''body'', JStr (json_dumps (JStr text)))]
   \<and> json_loads_str (json_dumps (JStr text)) = Some text
   \<and> json_dumps (JStr text) \<noteq> text"
  by (simp add: ok_response_def json_loads_dumps json_dumps_not_raw)

text \<open>
  Claim C8. Every successful response of one of the four handlers (a returned
  dictionary with an integer \<open>statusCode\<close>) is \<open>{statusCode: 200, body: b}\<close>, where \<open>b\<close>
  is the string \<open>json.dumps(text)\<close> and \<open>text\<close> is the formatted table of the handler:
  its CSV text, or the text that \<open>to_json\<close> returned. The body is the JSON string
  literal of the text (reading it back gives the text) and not the text itself, for
  the CSV text as for the JSON one.
\<close>

theorem success_envelope_shape:
  "(retrospective env path event = Inr r \<and> status_code r \<noteq> None \<longrightarrow>
      (\<exists>rid df text.
         py_int env (path ! 2) = Some rid
         \<and> retrospective_df env rid (params_or_empty (dict_get event ''queryStringParameters'')) = Inr df
         \<and> (text = to_csv (csv_value env) df
              \<or> to_json_noindex (index_false_refused env)
                    (json_columns epoch_ms (json_value env) df) = Inr text)
         \<and> r = JDict [(''statusCode'', JInt 200), (''body'', JStr (json_dumps (JStr text)))]
         \<and> json_loads_str (json_dumps (JStr text)) = Some text
         \<and> json_dumps (JStr text) \<noteq> text))
   \<and> (daily_averages env path event = Inr r \<and> status_code r \<noteq> None \<longrightarrow>
      (\<exists>rid df0 text.
         py_int env (path ! 2) = Some rid
         \<and> retrospective_df env rid (JDict []) = Inr df0
         \<and> (text = to_csv (csv_value env) (groupby_mean (mean env) strftime_md df0)
              \<or> to_json_noindex (index_false_refused env)
                    (json_columns (\<lambda>k. k) (json_value env) (groupby_mean (mean env) strftime_md df0))
                  = Inr text)
         \<and> r = JDict [(''statusCode'', JInt 200), (''body'', JStr (json_dumps (JStr text)))]
         \<and> json_loads_str (json_dumps (JStr text)) = Some text
         \<and> json_dumps (JStr text) \<noteq> text))
   \<and> (monthly_averages env path event = Inr r \<and> status_code r \<noteq> None \<longrightarrow>
      (\<exists>rid df0 text.
         py_int env (path ! 2) = Some rid
         \<and> retrospective_df env rid (JDict []) = Inr df0
         \<and> (text = to_csv (csv_value env) (groupby_mean (mean env) strftime_m df0)
              \<or> to_json_noindex (index_false_refused env)
                    (json_columns (\<lambda>k. k) (json_value env) (groupby_mean (mean env) strftime_m df0))
                  = Inr text)
         \<and> r = JDict [(''statusCode'', JInt 200), (''body'', JStr (json_dumps (JStr text)))]
         \<and> json_loads_str (json_dumps (JStr text)) = Some text
         \<and> json_dumps (JStr text) \<noteq> text))
   \<and> (returnperiods env path event = Inr r \<and> status_code r \<noteq> None \<longrightarrow>
      (\<exists>rid table text.
         py_int env (path ! 2) = Some rid
         \<and> open_returnperiods env rid = Inr table
         \<and> (text = rp_to_csv env table
              \<or> to_json_noindex (index_false_refused env) (rp_to_json env table) = Inr text)
         \<and> r = JDict [(''statusCode'', JInt 200), (''body'', JStr (json_dumps (JStr text)))]
         \<and> json_loads_str (json_dumps (JStr text)) = Some text
         \<and> json_dumps (JStr text) \<noteq> text))"
proof (intro conjI impI; elim conjE)
  assume "retrospective env path event = Inr r" "status_code r \<noteq> None"
  from retrospective_success [OF this]
  show "\<exists>rid df text.
         py_int env (path ! 2) = Some rid
         \<and> retrospective_df env rid (params_or_empty (dict_get event ''queryStringParameters'')) = Inr df
         \<and> (text = to_csv (csv_value env) df
              \<or> to_json_noindex (index_false_refused env)
                    (json_columns epoch_ms (json_value env) df) = Inr text)
         \<and> r = JDict [(''statusCode'', JInt 200), (''body'', JStr (json_dumps (JStr text)))]
         \<and> json_loads_str (json_dumps (JStr text)) = Some text
         \<and> json_dumps (JStr text) \<noteq> text"
    using success_encoding by blast
next
  assume "daily_averages env path event = Inr r" "status_code r \<noteq> None"
  from averages_success [OF this [unfolded daily_averages_averages]]
  show "\<exists>rid df0 text.
         py_int env (path ! 2) = Some rid
         \<and> retrospective_df env rid (JDict []) = Inr df0
         \<and> (text = to_csv (csv_value env) (groupby_mean (mean env) strftime_md df0)
              \<or> to_json_noindex (index_false_refused env)
                    (json_columns (\<lambda>k. k) (json_value env) (groupby_mean (mean env) strftime_md df0))
                  = Inr text)
         \<and> r = JDict [(''statusCode'', JInt 200), (''body'', JStr (json_dumps (JStr text)))]
         \<and> json_loads_str (json_dumps (JStr text)) = Some text
         \<and> json_dumps (JStr text) \<noteq> text"
    using success_encoding by blast
next
  assume "monthly_averages env path event = Inr r" "status_code r \<noteq> None"
  from averages_success [OF this [unfolded monthly_averages_averages]]
  show "\<exists>rid df0 text.
         py_int env (path ! 2) = Some rid
         \<and> retrospective_df env rid (JDict []) = Inr df0
         \<and> (text = to_csv (csv_value env) (groupby_mean (mean env) strftime_m df0)
              \<or> to_json_noindex (index_false_refused env)
                    (json_columns (\<lambda>k. k) (json_value env) (groupby_mean (mean env) strftime_m df0))
                  = Inr text)
         \<and> r = JDict [(''statusCode'', JInt 200), (''body'', JStr (json_dumps (JStr text)))]
         \<and> json_loads_str (json_dumps (JStr text)) = Some text
         \<and> json_dumps (JStr text) \<noteq> text"
    using success_encoding by blast
next
  assume "returnperiods env path event = Inr r" "status_code r \<noteq> None"
  from returnperiods_success [OF this]
  show "\<exists>rid table text.
         py_int env (path ! 2) = Some rid
         \<and> open_returnperiods env rid = Inr table
         \<and> (text = rp_to_csv env table
              \<or> to_json_noindex (index_false_refused env) (rp_to_json env table) = Inr text)
         \<and> r = JDict [(''statusCode'', JInt 200), (''body'', JStr (json_dumps (JStr text)))]
         \<and> json_loads_str (json_dumps (JStr text)) = Some text
         \<and> json_dumps (JStr text) \<noteq> text"
    using success_encoding by blast
qed

theorem success_envelope_shape_witness:
  "retrospective demo_env [''v2'', ''retrospective'', ''12345678'']
      (event_of ''/v2/retrospective/12345678'' [(''format'', JStr ''csv'')] [])
     = Inr (JDict [(''statusCode'', JInt 200),
                   (''body'', JStr ([CHR 0x22] @ ''12345678'' @ [CHR 0x5C] @ ''n10'' @ [CHR 0x5C] @ ''n20''
                      @ [CHR 0x5C] @ ''n30'' @ [CHR 0x5C] @ ''n40'' @ [CHR 0x5C] @ ''n70'' @ [CHR 0x5C] @ ''n''
                      @ [CHR 0x22]))])
   \<and> json_loads_str ([CHR 0x22] @ ''12345678'' @ [CHR 0x5C] @ ''n10'' @ [CHR 0x5C] @ ''n20''
                      @ [CHR 0x5C] @ ''n30'' @ [CHR 0x5C] @ ''n40'' @ [CHR 0x5C] @ ''n70'' @ [CHR 0x5C] @ ''n''
                      @ [CHR 0x22])
     = Some (concat (map (\<lambda>l. l @ [CHR 0x0A]) [''12345678'', ''10'', ''20'', ''30'', ''40'', ''70'']))
   \<and> daily_averages demo_env [''v2'', ''daily_averages'', ''12345678'']
      (event_of ''/v2/daily_averages/12345678'' [] [(''format'', JStr ''json'')])
     = Inr (JDict [(''statusCode'', JInt 200),
                   (''body'', JStr ([CHR 0x22] @ ''{'' @ [CHR 0x5C, CHR 0x22] @ ''12345678'' @ [CHR 0x5C, CHR 0x22]
                      @ '':{'' @ [CHR 0x5C, CHR 0x22] @ ''0101'' @ [CHR 0x5C, CHR 0x22] @ '':45,''
                      @ [CHR 0x5C, CHR 0x22] @ ''0102'' @ [CHR 0x5C, CHR 0x22] @ '':30,''
                      @ [CHR 0x5C, CHR 0x22] @ ''0103'' @ [CHR 0x5C, CHR 0x22] @ '':40,''
                      @ [CHR 0x5C, CHR 0x22] @ ''1231'' @ [CHR 0x5C, CHR 0x22] @ '':10}}'' @ [CHR 0x22]))])
   \<and> monthly_averages demo_env [''v2'', ''monthly_averages'', ''12345678'']
      (event_of ''/v2/monthly_averages/12345678'' [] [])
     = Inr (JDict [(''statusCode'', JInt 200),
                   (''body'', JStr ([CHR 0x22] @ ''12345678'' @ [CHR 0x5C] @ ''n40'' @ [CHR 0x5C] @ ''n10''
                      @ [CHR 0x5C] @ ''n'' @ [CHR 0x22]))])
   \<and> returnperiods demo_env [''v2'', ''returnperiods'', ''12345678'']
      (event_of ''/v2/returnperiods/12345678'' [] [])
     = Inr (JDict [(''statusCode'', JInt 200),
                   (''body'', JStr ([CHR 0x22] @ ''return_period_2,return_period_5'' @ [CHR 0x5C]
                      @ ''n100,150'' @ [CHR 0x5C] @ ''n'' @ [CHR 0x22]))])"
proof -
  let ?p1 = "[''v2'', ''retrospective'', ''12345678'']"
  let ?p2 = "[''v2'', ''daily_averages'', ''12345678'']"
  let ?p3 = "[''v2'', ''monthly_averages'', ''12345678'']"
  let ?p4 = "[''v2'', ''returnperiods'', ''12345678'']"
  let ?e1 = "event_of ''/v2/retrospective/12345678'' [(''format'', JStr ''csv'')] []"
  let ?e2 = "event_of ''/v2/daily_averages/12345678'' [] [(''format'', JStr ''json'')]"
  let ?e3 = "event_of ''/v2/monthly_averages/12345678'' [] []"
  let ?e4 = "event_of ''/v2/returnperiods/12345678'' [] []"
  let ?t1 = "concat (map (\<lambda>l. l @ [CHR 0x0A]) [''12345678'', ''10'', ''20'', ''30'', ''40'', ''70''])"
  let ?t2 = "''{'' @ [CHR 0x22] @ ''12345678'' @ [CHR 0x22] @ '':{''
               @ [CHR 0x22] @ ''0101'' @ [CHR 0x22] @ '':45,''
               @ [CHR 0x22] @ ''0102'' @ [CHR 0x22] @ '':30,''
               @ [CHR 0x22] @ ''0103'' @ [CHR 0x22] @ '':40,''
               @ [CHR 0x22] @ ''1231'' @ [CHR 0x22] @ '':10}}''"
  let ?t3 = "concat (map (\<lambda>l. l @ [CHR 0x0A]) [''12345678'', ''40'', ''10''])"
  let ?t4 = "''return_period_2,return_period_5'' @ [CHR 0x0A] @ ''100,150'' @ [CHR 0x0A]"
  have h1: "retrospective demo_env ?p1 ?e1 = Inr (ok_response ?t1)"
    by (simp add: handler_defs demo_defs)
  have h4: "returnperiods demo_env ?p4 ?e4 = Inr (ok_response ?t4)"
    by (simp add: handler_defs demo_defs)
  note h2 = demo_daily_json and h3 = demo_monthly_csv
  from success_envelope_shape [of demo_env ?p1 ?e1 "ok_response ?t1"] h1
  obtain x1 where x1: "ok_response ?t1
        = JDict [(''statusCode'', JInt 200), (''body'', JStr (json_dumps (JStr x1)))]"
      "json_loads_str (json_dumps (JStr x1)) = Some x1"
    by auto
  from success_envelope_shape [of demo_env ?p2 ?e2 "ok_response ?t2"] h2
  obtain x2 where x2: "ok_response ?t2
        = JDict [(''statusCode'', JInt 200), (''body'', JStr (json_dumps (JStr x2)))]"
    by auto
  from success_envelope_shape [of demo_env ?p3 ?e3 "ok_response ?t3"] h3
  obtain x3 where x3: "ok_response ?t3
        = JDict [(''statusCode'', JInt 200), (''body'', JStr (json_dumps (JStr x3)))]"
    by auto
  from success_envelope_shape [of demo_env ?p4 ?e4 "ok_response ?t4"] h4
  obtain x4 where x4: "ok_response ?t4
        = JDict [(''statusCode'', JInt 200), (''body'', JStr (json_dumps (JStr x4)))]"
    by auto
  have b1: "json_dumps (JStr ?t1) = [CHR 0x22] @ ''12345678'' @ [CHR 0x5C] @ ''n10'' @ [CHR 0x5C] @ ''n20''
                      @ [CHR 0x5C] @ ''n30'' @ [CHR 0x5C] @ ''n40'' @ [CHR 0x5C] @ ''n70'' @ [CHR 0x5C] @ ''n''
                      @ [CHR 0x22]"
    by (simp add: json_text_defs)
  have b2: "json_dumps (JStr ?t2) = [CHR 0x22] @ ''{'' @ [CHR 0x5C, CHR 0x22] @ ''12345678'' @ [CHR 0x5C, CHR 0x22]
                      @ '':{'' @ [CHR 0x5C, CHR 0x22] @ ''0101'' @ [CHR 0x5C, CHR 0x22] @ '':45,''
                      @ [CHR 0x5C, CHR 0x22] @ ''0102'' @ [CHR 0x5C, CHR 0x22] @ '':30,''
                      @ [CHR 0x5C, CHR 0x22] @ ''0103'' @ [CHR 0x5C, CHR 0x22] @ '':40,''
                      @ [CHR 0x5C, CHR 0x22] @ ''1231'' @ [CHR 0x5C, CHR 0x22] @ '':10}}'' @ [CHR 0x22]"
    by (simp add: json_text_defs)
  have b3: "json_dumps (JStr ?t3) = [CHR 0x22] @ ''12345678'' @ [CHR 0x5C] @ ''n40'' @ [CHR 0x5C] @ ''n10''
                      @ [CHR 0x5C] @ ''n'' @ [CHR 0x22]"
    by (simp add: json_text_defs)
  have b4: "json_dumps (JStr ?t4) = [CHR 0x22] @ ''return_period_2,return_period_5'' @ [CHR 0x5C]
                      @ ''n100,150'' @ [CHR 0x5C] @ ''n'' @ [CHR 0x22]"
    by (simp add: json_text_defs)
  from x1 have e1: "x1 = ?t1" "json_loads_str (json_dumps (JStr ?t1)) = Some ?t1"
    by (auto simp: ok_response_def dest: arg_cong [where f = json_loads_str] simp: json_loads_dumps)
  from h1 h2 h3 h4 e1(2) show ?thesis
    unfolding ok_response_def b1 b2 b3 b4 by (intro conjI)
qed

end
